theory Spec2Isabelle
  imports Main "HOL-Library.Char_ord" "HOL-Library.List_Lexorder" "HOL-Library.Product_Lexorder"
    "HOL-Library.Multiset"
begin

section \<open>Values that travel on the wire\<close>

text \<open>
  The payloads of \<^verbatim>\<open>RHUI.py\<close> are Python dictionaries, lists, strings, numbers,
  booleans and \<^verbatim>\<open>None\<close>, handed to socket.io for JSON serialisation. A dictionary
  keeps its insertion order, so it is an association list; assigning to a key that is
  already present replaces the value in place (\<open>dict_set\<close>).
\<close>

datatype jv =
    JNull
  | JBool bool
  | JInt int
  | JStr string
  | JList "jv list"
  | JObj "(string \<times> jv) list"

fun dict_set :: "(string \<times> jv) list \<Rightarrow> string \<Rightarrow> jv \<Rightarrow> (string \<times> jv) list" where
  "dict_set [] k v = [(k, v)]"
| "dict_set ((k', v') # d) k v = (if k' = k then (k, v) # d else (k', v') # dict_set d k v)"

definition dict_get :: "(string \<times> jv) list \<Rightarrow> string \<Rightarrow> jv option" where
  "dict_get d k = map_of d k"

text \<open>An optional string as a JSON value: \<^verbatim>\<open>None\<close> is \<open>null\<close>.\<close>

definition jstr_opt :: "string option \<Rightarrow> jv" where
  "jstr_opt s = (case s of None \<Rightarrow> JNull | Some t \<Rightarrow> JStr t)"

text \<open>Python's \<^verbatim>\<open>str\<close> on an integer: decimal digits, with a minus sign when negative.\<close>

definition digit_char :: "nat \<Rightarrow> char" where
  "digit_char d = ''0123456789'' ! d"

fun str_nat :: "nat \<Rightarrow> string" where
  "str_nat n = (if n < 10 then [digit_char n] else str_nat (n div 10) @ [digit_char (n mod 10)])"

definition str_int :: "int \<Rightarrow> string" where
  "str_int i = (if i < 0 then CHR ''-'' # str_nat (nat (- i)) else str_nat (nat i))"

text \<open>Python's \<^verbatim>\<open>' '.join\<close>.\<close>

fun join_sp :: "string list \<Rightarrow> string" where
  "join_sp [] = []"
| "join_sp [s] = s"
| "join_sp (s # t # ss) = s @ '' '' @ join_sp (t # ss)"

text \<open>The exceptions the modelled code can raise.\<close>

datatype exn =
    AttributeError
  | RuntimeError
  | TypeError
  | KeyError
  | IndexError
  | JSONDecodeError
  | CalledProcessError int
  | OSError
  | TimeoutExpired
  | UnicodeDecodeError

section \<open>Extension registry\<close>

text \<open>The three dataclasses at the end of \<^verbatim>\<open>RHUI.py\<close>.\<close>

record PilotAttribute =
  pa_name :: string
  pa_label :: string
  pa_fieldtype :: string

record UIPanel =
  up_name :: string
  up_label :: string
  up_page :: string
  up_order :: int

record GeneralSetting =
  gs_name :: string
  gs_label :: string
  gs_panel :: "string option"
  gs_fieldtype :: string
  gs_order :: int

text \<open>The registry part of an \<^verbatim>\<open>RHUI\<close> instance; \<^verbatim>\<open>__init__\<close> starts it empty.\<close>

record rhui =
  pilot_attributes :: "PilotAttribute list"
  ui_panels :: "UIPanel list"
  general_settings :: "GeneralSetting list"

definition rhui_init :: rhui where
  "rhui_init = \<lparr>pilot_attributes = [], ui_panels = [], general_settings = []\<rparr>"

definition register_pilot_attribute :: "rhui \<Rightarrow> string \<Rightarrow> string \<Rightarrow> string \<Rightarrow> rhui" where
  "register_pilot_attribute ui name label fieldtype =
     ui\<lparr>pilot_attributes := pilot_attributes ui @
          [\<lparr>pa_name = name, pa_label = label, pa_fieldtype = fieldtype\<rparr>]\<rparr>"

definition register_ui_panel :: "rhui \<Rightarrow> string \<Rightarrow> string \<Rightarrow> string \<Rightarrow> int \<Rightarrow> rhui" where
  "register_ui_panel ui name label page ord =
     ui\<lparr>ui_panels := ui_panels ui @
          [\<lparr>up_name = name, up_label = label, up_page = page, up_order = ord\<rparr>]\<rparr>"

text \<open>
  \<^verbatim>\<open>register_general_setting(name, label, panel=None, fieldtype="text", order=0)\<close>
  appends and returns the list; the model returns the instance, whose
  \<open>general_settings\<close> field is that list. Nothing is checked for duplicates.
\<close>

definition register_general_setting ::
  "rhui \<Rightarrow> string \<Rightarrow> string \<Rightarrow> string option \<Rightarrow> string \<Rightarrow> int \<Rightarrow> rhui" where
  "register_general_setting ui name label panel fieldtype ord =
     ui\<lparr>general_settings := general_settings ui @
          [\<lparr>gs_name = name, gs_label = label, gs_panel = panel,
            gs_fieldtype = fieldtype, gs_order = ord\<rparr>]\<rparr>"

text \<open>
  \<^verbatim>\<open>get_panel_settings(name)\<close>: the loop over \<open>general_settings\<close>, appending the
  settings whose panel equals \<open>name\<close> (which may be \<^verbatim>\<open>None\<close>).
\<close>

fun panel_settings_loop ::
  "string option \<Rightarrow> GeneralSetting list \<Rightarrow> GeneralSetting list \<Rightarrow> GeneralSetting list" where
  "panel_settings_loop name [] payload = payload"
| "panel_settings_loop name (setting # rest) payload =
     panel_settings_loop name rest
       (if gs_panel setting = name then payload @ [setting] else payload)"

definition get_panel_settings :: "rhui \<Rightarrow> string option \<Rightarrow> GeneralSetting list" where
  "get_panel_settings ui name = panel_settings_loop name (general_settings ui) []"

text \<open>A sequence of registration calls, each given by its five arguments.\<close>

type_synonym setting_args = "string \<times> string \<times> string option \<times> string \<times> int"

fun register_call :: "rhui \<Rightarrow> setting_args \<Rightarrow> rhui" where
  "register_call ui (name, label, panel, fieldtype, ord) =
     register_general_setting ui name label panel fieldtype ord"

fun setting_of :: "setting_args \<Rightarrow> GeneralSetting" where
  "setting_of (name, label, panel, fieldtype, ord) =
     \<lparr>gs_name = name, gs_label = label, gs_panel = panel,
      gs_fieldtype = fieldtype, gs_order = ord\<rparr>"

definition register_all :: "rhui \<Rightarrow> setting_args list \<Rightarrow> rhui" where
  "register_all ui calls = foldl register_call ui calls"

section \<open>Transport, event bus, log and subprocesses\<close>

text \<open>
  A session is known by its socket.io session id. A message leaves either through
  \<^verbatim>\<open>self._socket.emit\<close> (every client of the namespace), or through flask-socketio's
  context-bound \<^verbatim>\<open>emit\<close>, which addresses the room of the requesting session, or,
  with \<^verbatim>\<open>broadcast=True, include_self=False\<close>, everybody but that session.
\<close>

type_synonym sid = string

datatype target = ToAll | ToAllExcept sid | ToRoom sid

record wire_msg =
  m_topic :: string
  m_payload :: jv
  m_target :: target

fun recipients :: "sid list \<Rightarrow> target \<Rightarrow> sid list" where
  "recipients sessions ToAll = sessions"
| "recipients sessions (ToAllExcept c) = filter (\<lambda>s. s \<noteq> c) sessions"
| "recipients sessions (ToRoom c) = filter (\<lambda>s. s = c) sessions"

datatype evt = MESSAGE_INTERRUPT | MESSAGE_STANDARD | RACE_FIRST_PASS

text \<open>
  What an emit operation can change: the messages handed to the transport, the events
  handed to the event manager, the records written by \<^verbatim>\<open>logger.exception\<close> (message and
  the exception being handled) and the shell commands handed to
  \<^verbatim>\<open>subprocess.check_output\<close>. \<open>request_sid\<close> is flask's ambient request: the
  session id of the socket.io event being handled, or nothing outside a request.
\<close>

record world =
  request_sid :: "sid option"
  wire :: "wire_msg list"
  events :: "(evt \<times> jv) list"
  logged :: "(string \<times> exn) list"
  procs :: "string list"

definition socket_emit :: "string \<Rightarrow> jv \<Rightarrow> world \<Rightarrow> world" where
  "socket_emit t p w = w\<lparr>wire := wire w @ [\<lparr>m_topic = t, m_payload = p, m_target = ToAll\<rparr>]\<rparr>"

text \<open>\<^verbatim>\<open>emit(t, p)\<close>: reads \<^verbatim>\<open>flask.request\<close>, which raises outside a request context.\<close>

definition flask_emit :: "string \<Rightarrow> jv \<Rightarrow> world \<Rightarrow> exn + world" where
  "flask_emit t p w =
     (case request_sid w of
        None \<Rightarrow> Inl RuntimeError
      | Some s \<Rightarrow> Inr (w\<lparr>wire := wire w @ [\<lparr>m_topic = t, m_payload = p, m_target = ToRoom s\<rparr>]\<rparr>))"

text \<open>\<^verbatim>\<open>emit(t, p, broadcast=True, include_self=False)\<close>.\<close>

definition flask_emit_others :: "string \<Rightarrow> jv \<Rightarrow> world \<Rightarrow> exn + world" where
  "flask_emit_others t p w =
     (case request_sid w of
        None \<Rightarrow> Inl RuntimeError
      | Some s \<Rightarrow> Inr (w\<lparr>wire := wire w @ [\<lparr>m_topic = t, m_payload = p, m_target = ToAllExcept s\<rparr>]\<rparr>))"

text \<open>\<^verbatim>\<open>emit(t, p, namespace='/', room=sid)\<close>: namespace and room are both given.\<close>

definition flask_emit_room :: "string \<Rightarrow> jv \<Rightarrow> sid \<Rightarrow> world \<Rightarrow> world" where
  "flask_emit_room t p s w = w\<lparr>wire := wire w @ [\<lparr>m_topic = t, m_payload = p, m_target = ToRoom s\<rparr>]\<rparr>"

definition events_trigger :: "evt \<Rightarrow> jv \<Rightarrow> world \<Rightarrow> world" where
  "events_trigger k d w = w\<lparr>events := events w @ [(k, d)]\<rparr>"

definition logger_exception :: "string \<Rightarrow> exn \<Rightarrow> world \<Rightarrow> world" where
  "logger_exception m e w = w\<lparr>logged := logged w @ [(m, e)]\<rparr>"

text \<open>Keyword arguments \<^verbatim>\<open>**params\<close>; only the presence of a key is ever tested.\<close>

type_synonym params = "string \<rightharpoonup> jv"

definition has_param :: "params \<Rightarrow> string \<Rightarrow> bool" where
  "has_param ps k = (ps k \<noteq> None)"

text \<open>
  The two addressing idioms that close nearly every emit operation:
  \<^verbatim>\<open>if 'nobroadcast' in params: emit(t, p) else: self._socket.emit(t, p)\<close>, and the same
  with the \<^verbatim>\<open>elif 'noself' in params\<close> branch in between.
\<close>

definition send_default :: "params \<Rightarrow> string \<Rightarrow> jv \<Rightarrow> world \<Rightarrow> exn + world" where
  "send_default ps t p w =
     (if has_param ps ''nobroadcast'' then flask_emit t p w else Inr (socket_emit t p w))"

definition send_noself :: "params \<Rightarrow> string \<Rightarrow> jv \<Rightarrow> world \<Rightarrow> exn + world" where
  "send_noself ps t p w =
     (if has_param ps ''nobroadcast'' then flask_emit t p w
      else if has_param ps ''noself'' then flask_emit_others t p w
      else Inr (socket_emit t p w))"

section \<open>The race context, as read by the emit operations\<close>

record heat =
  h_id :: int
  h_note :: jv
  h_displayname :: string
  h_class_id :: jv
  h_order :: jv
  h_status :: jv
  h_auto_frequency :: jv

record heatnode =
  hn_id :: jv
  hn_node_index :: "nat option"
  hn_pilot_id :: jv
  hn_color :: jv
  hn_method :: int
  hn_seed_rank :: jv
  hn_seed_id :: jv

record pilot =
  p_id :: int
  p_callsign :: string
  p_team :: string
  p_phonetic :: string
  p_name :: string
  p_active :: jv
  p_color :: jv

text \<open>
  The profile's \<^verbatim>\<open>frequencies\<close> option after \<^verbatim>\<open>json.loads\<close>: bands, channels and
  frequencies per node. A band or channel may be \<^verbatim>\<open>None\<close>; a frequency is an integer.
\<close>

record freqs =
  fq_b :: "string option list"
  fq_c :: "int option list"
  fq_f :: "int list"

text \<open>
  The collaborators behind \<^verbatim>\<open>self._racecontext\<close>, each by what its read call returns.
  \<open>race_profile_frequencies\<close> is the outcome of \<^verbatim>\<open>json.loads\<close> on the stored option
  (\<open>Inl\<close>: it raised); \<open>pagecache_get_cache\<close> the outcome of building the result cache;
  \<open>check_output_utf8 c\<close> the outcome of
  \<^verbatim>\<open>subprocess.check_output(c, shell=True).decode("utf-8")\<close>. \<open>PM_HEAT_RESULT\<close> and
  \<open>PM_CLASS_RESULT\<close> are the two constants of \<^verbatim>\<open>Database.ProgramMethod\<close> the code names.
\<close>

record racecontext =
  rhdata_get_heats :: "heat list"
  rhdata_get_heatNodes_by_heat :: "int \<Rightarrow> heatnode list"
  rhdata_savedRaceMetas_has_heat :: "int \<Rightarrow> bool"
  rhdata_get_pilots :: "pilot list"
  rhdata_get_pilot :: "int \<Rightarrow> pilot option"
  rhdata_get_pilot_attributes :: "pilot \<Rightarrow> (string \<times> string option) list"
  rhdata_savedPilotRaces_has_pilot :: "int \<Rightarrow> bool"
  rhdata_TEAM_NAMES_LIST :: "string list"
  rhdata_get_option :: "string \<Rightarrow> string option"
  led_manager_isEnabled :: bool
  race_profile_frequencies :: "exn + freqs"
  race_num_nodes :: nat
  pagecache_get_cache :: "exn + jv"
  phonetictime_format :: "jv \<Rightarrow> string option \<Rightarrow> string"
  check_output_utf8 :: "string \<Rightarrow> exn + string"
  PM_HEAT_RESULT :: int
  PM_CLASS_RESULT :: int

section \<open>Priority messages and first pass\<close>

definition emit_priority_message ::
  "string \<Rightarrow> bool \<Rightarrow> jv \<Rightarrow> params \<Rightarrow> world \<Rightarrow> exn + world" where
  "emit_priority_message message interrupt caller ps w =
     (let emit_payload = JObj [(''message'', JStr message), (''interrupt'', JBool interrupt)] in
      if has_param ps ''nobroadcast'' then flask_emit ''priority_message'' emit_payload w
      else
        (let w1 =
           (if interrupt then
              events_trigger MESSAGE_INTERRUPT
                (JObj [(''message'', JStr message), (''interrupt'', JBool interrupt),
                       (''caller'', caller)]) w
            else
              events_trigger MESSAGE_STANDARD
                (JObj [(''message'', JStr message), (''interrupt'', JBool interrupt),
                       (''caller'', caller)]) w)
         in Inr (socket_emit ''priority_message'' emit_payload w1)))"

definition emit_first_pass_registered :: "jv \<Rightarrow> params \<Rightarrow> world \<Rightarrow> exn + world" where
  "emit_first_pass_registered node_idx ps w =
     (let emit_payload = JObj [(''node_index'', node_idx)];
          w1 = events_trigger RACE_FIRST_PASS (JObj [(''node_index'', node_idx)]) w
      in send_default ps ''first_pass_registered'' emit_payload w1)"

section \<open>Result data\<close>

text \<open>
  Modelled from the spec: \<^verbatim>\<open>RHUtils.catchLogExceptionsWrapper\<close> is not part of the
  source file. By the specification of the offload scheduler, a failure inside the
  deferred task is caught and logged and does not reach the caller.
\<close>

definition catchLogExceptionsWrapper :: "(world \<Rightarrow> exn + world) \<Rightarrow> world \<Rightarrow> world" where
  "catchLogExceptionsWrapper body w =
     (case body w of
        Inl e \<Rightarrow> logger_exception ''Exception via catchLogExceptionsWrapper'' e w
      | Inr w' \<Rightarrow> w')"

text \<open>
  The body of \<^verbatim>\<open>emit_result_data_thread\<close>, inside \<^verbatim>\<open>test_request_context()\<close>: the
  cache is fetched, then sent to the room \<open>sid\<close> only if \<^verbatim>\<open>nobroadcast\<close> was asked
  \<^emph>\<open>and\<close> a session id was handed over; in every other case it goes to all.
\<close>

definition emit_result_data_thread_body ::
  "racecontext \<Rightarrow> params \<Rightarrow> sid option \<Rightarrow> world \<Rightarrow> exn + world" where
  "emit_result_data_thread_body rc ps sid w =
     (case pagecache_get_cache rc of
        Inl e \<Rightarrow> Inl e
      | Inr emit_payload \<Rightarrow>
          (case (has_param ps ''nobroadcast'', sid) of
             (True, Some s) \<Rightarrow> Inr (flask_emit_room ''result_data'' emit_payload s w)
           | _ \<Rightarrow> Inr (socket_emit ''result_data'' emit_payload w)))"

definition emit_result_data_thread :: "racecontext \<Rightarrow> params \<Rightarrow> sid option \<Rightarrow> world \<Rightarrow> world" where
  "emit_result_data_thread rc ps sid w =
     catchLogExceptionsWrapper (emit_result_data_thread_body rc ps sid) w"

text \<open>
  \<^verbatim>\<open>emit_result_data\<close> hands the thread to \<^verbatim>\<open>gevent.spawn\<close>, with \<^verbatim>\<open>request.sid\<close> when
  a request is active and without a session id otherwise. The model gives the effect of
  the spawned greenlet once it has run; the caller gets no exception from it.
\<close>

definition emit_result_data :: "racecontext \<Rightarrow> params \<Rightarrow> world \<Rightarrow> world" where
  "emit_result_data rc ps w =
     (case request_sid w of
        Some s \<Rightarrow> emit_result_data_thread rc ps (Some s) w
      | None \<Rightarrow> emit_result_data_thread rc ps None w)"

section \<open>Heat data\<close>

text \<open>
  The sort key of \<^verbatim>\<open>emit_heat_data\<close>:
  \<^verbatim>\<open>if not x.node_index: return -1\<close>, else the node index. Python's \<^verbatim>\<open>not\<close> holds
  of \<^verbatim>\<open>None\<close> and of the integer 0 alike.
\<close>

definition heatNodeSorter :: "heatnode \<Rightarrow> int" where
  "heatNodeSorter x =
     (case hn_node_index x of
        None \<Rightarrow> - 1
      | Some n \<Rightarrow> if n = 0 then - 1 else int n)"

definition node_index_json :: "nat option \<Rightarrow> jv" where
  "node_index_json i = (case i of None \<Rightarrow> JNull | Some n \<Rightarrow> JInt (int n))"

definition current_node :: "heatnode \<Rightarrow> jv" where
  "current_node heatNode =
     JObj [(''id'', hn_id heatNode),
           (''node_index'', node_index_json (hn_node_index heatNode)),
           (''pilot_id'', hn_pilot_id heatNode),
           (''color'', hn_color heatNode),
           (''method'', JInt (hn_method heatNode)),
           (''seed_rank'', hn_seed_rank heatNode),
           (''seed_id'', hn_seed_id heatNode)]"

fun heat_slots_loop ::
  "racecontext \<Rightarrow> heatnode list \<Rightarrow> jv list \<Rightarrow> bool \<Rightarrow> jv list \<times> bool" where
  "heat_slots_loop rc [] slots is_dynamic = (slots, is_dynamic)"
| "heat_slots_loop rc (heatNode # rest) slots is_dynamic =
     heat_slots_loop rc rest (slots @ [current_node heatNode])
       (if hn_method heatNode = PM_HEAT_RESULT rc \<or> hn_method heatNode = PM_CLASS_RESULT rc
        then True else is_dynamic)"

text \<open>
  \<^verbatim>\<open>heatNodes.sort(key=heatNodeSorter)\<close>: Python's sort is stable and ascending; on
  integer keys no comparison can fail, and \<open>sort_key\<close> is the stable insertion sort.
\<close>

definition sorted_heatNodes :: "racecontext \<Rightarrow> int \<Rightarrow> heatnode list" where
  "sorted_heatNodes rc heat_id = sort_key heatNodeSorter (rhdata_get_heatNodes_by_heat rc heat_id)"

definition current_heat :: "racecontext \<Rightarrow> heat \<Rightarrow> jv" where
  "current_heat rc heat =
     (case heat_slots_loop rc (sorted_heatNodes rc (h_id heat)) [] False of
        (slots, is_dynamic) \<Rightarrow>
          JObj [(''id'', JInt (h_id heat)),
                (''note'', h_note heat),
                (''displayname'', JStr (h_displayname heat)),
                (''class_id'', h_class_id heat),
                (''order'', h_order heat),
                (''status'', h_status heat),
                (''auto_frequency'', h_auto_frequency heat),
                (''slots'', JList slots),
                (''dynamic'', JBool is_dynamic),
                (''locked'', JBool (rhdata_savedRaceMetas_has_heat rc (h_id heat)))])"

fun heats_loop :: "racecontext \<Rightarrow> heat list \<Rightarrow> jv list \<Rightarrow> jv list" where
  "heats_loop rc [] heats = heats"
| "heats_loop rc (heat # rest) heats = heats_loop rc rest (heats @ [current_heat rc heat])"

definition heat_data_payload :: "racecontext \<Rightarrow> jv" where
  "heat_data_payload rc = JObj [(''heats'', JList (heats_loop rc (rhdata_get_heats rc) []))]"

definition emit_heat_data :: "racecontext \<Rightarrow> params \<Rightarrow> world \<Rightarrow> exn + world" where
  "emit_heat_data rc ps w = send_noself ps ''heat_data'' (heat_data_payload rc) w"

section \<open>Pilot data\<close>

definition dquote :: string where
  "dquote = [CHR 0x22]"

fun team_options_loop :: "string \<Rightarrow> string list \<Rightarrow> string \<Rightarrow> string" where
  "team_options_loop team [] opts_str = opts_str"
| "team_options_loop team (name # rest) opts_str =
     team_options_loop team rest
       (opts_str @ ''<option value='' @ dquote @ name @ dquote
          @ (if name = team then '' selected'' else [])
          @ ''>'' @ name @ ''</option>'')"

fun pilot_attributes_loop ::
  "(string \<times> string option) list \<Rightarrow> (string \<times> jv) list \<Rightarrow> (string \<times> jv) list" where
  "pilot_attributes_loop [] pilot_data = pilot_data"
| "pilot_attributes_loop ((name, val) # rest) pilot_data =
     pilot_attributes_loop rest (dict_set pilot_data name (jstr_opt val))"

text \<open>
  The dictionary built for one pilot: the fixed keys, then one key per stored pilot
  attribute (an attribute whose name is one of the fixed keys replaces that entry),
  then \<^verbatim>\<open>color\<close> when the LED manager is enabled.
\<close>

definition pilot_data :: "racecontext \<Rightarrow> pilot \<Rightarrow> (string \<times> jv) list" where
  "pilot_data rc pilot =
     (let opts_str = team_options_loop (p_team pilot) (rhdata_TEAM_NAMES_LIST rc) [];
          locked = rhdata_savedPilotRaces_has_pilot rc (p_id pilot);
          d = [(''pilot_id'', JInt (p_id pilot)),
               (''callsign'', JStr (p_callsign pilot)),
               (''team'', JStr (p_team pilot)),
               (''phonetic'', JStr (p_phonetic pilot)),
               (''name'', JStr (p_name pilot)),
               (''active'', p_active pilot),
               (''team_options'', JStr opts_str),
               (''locked'', JBool locked)];
          d' = pilot_attributes_loop (rhdata_get_pilot_attributes rc pilot) d
      in if led_manager_isEnabled rc then dict_set d' ''color'' (p_color pilot) else d')"

text \<open>
  The sort keys are the tuples \<^verbatim>\<open>(x['callsign'], x['name'])\<close> or
  \<^verbatim>\<open>(x['name'], x['callsign'])\<close>. Both entries are strings unless a pilot attribute of
  that name has replaced one by \<^verbatim>\<open>None\<close>; \<open>key_str\<close> reads an entry as a string or
  \<^verbatim>\<open>None\<close>.
\<close>

definition key_str :: "(string \<times> jv) list \<Rightarrow> string \<Rightarrow> string option" where
  "key_str d k = (case dict_get d k of Some (JStr s) \<Rightarrow> Some s | _ \<Rightarrow> None)"

definition pilot_sort_key ::
  "string option \<Rightarrow> (string \<times> jv) list \<Rightarrow> string option \<times> string option" where
  "pilot_sort_key pilotSort x =
     (if pilotSort = Some ''callsign'' then (key_str x ''callsign'', key_str x ''name'')
      else (key_str x ''name'', key_str x ''callsign''))"

text \<open>
  Python's \<^verbatim>\<open><\<close>: between two strings it compares code points lexicographically,
  with \<^verbatim>\<open>None\<close> on either side it raises \<^verbatim>\<open>TypeError\<close>. Between two tuples it
  compares the first components that differ.
\<close>

fun py_lt :: "string option \<Rightarrow> string option \<Rightarrow> exn + bool" where
  "py_lt (Some a) (Some b) = Inr (a < b)"
| "py_lt _ _ = Inl TypeError"

fun py_tuple_lt ::
  "string option \<times> string option \<Rightarrow> string option \<times> string option \<Rightarrow> exn + bool" where
  "py_tuple_lt (a1, a2) (b1, b2) =
     (if a1 \<noteq> b1 then py_lt a1 b1 else if a2 \<noteq> b2 then py_lt a2 b2 else Inr False)"

text \<open>
  \<^verbatim>\<open>list.sort(key=...)\<close> as a stable insertion sort that only asks \<^verbatim>\<open><\<close> and fails
  as soon as a comparison it asks raises. On keys that are all strings this is Python's
  sort; on a list with a \<^verbatim>\<open>None\<close> key it shows that the sort can raise, without
  following CPython in which comparison it asks first.
\<close>

fun py_insort_key ::
  "('a \<Rightarrow> string option \<times> string option) \<Rightarrow> 'a \<Rightarrow> 'a list \<Rightarrow> exn + 'a list" where
  "py_insort_key k x [] = Inr [x]"
| "py_insort_key k x (y # ys) =
     (case py_tuple_lt (k y) (k x) of
        Inl e \<Rightarrow> Inl e
      | Inr True \<Rightarrow> (case py_insort_key k x ys of Inl e \<Rightarrow> Inl e | Inr r \<Rightarrow> Inr (y # r))
      | Inr False \<Rightarrow> Inr (x # y # ys))"

fun py_sort_key ::
  "('a \<Rightarrow> string option \<times> string option) \<Rightarrow> 'a list \<Rightarrow> exn + 'a list" where
  "py_sort_key k [] = Inr []"
| "py_sort_key k (x # xs) =
     (case py_sort_key k xs of Inl e \<Rightarrow> Inl e | Inr ys \<Rightarrow> py_insort_key k x ys)"

text \<open>The loop over the pilots: append the pilot's dictionary, then sort the whole list.\<close>

fun pilots_loop ::
  "racecontext \<Rightarrow> pilot list \<Rightarrow> (string \<times> jv) list list \<Rightarrow> exn + (string \<times> jv) list list" where
  "pilots_loop rc [] pilots_list = Inr pilots_list"
| "pilots_loop rc (pilot # rest) pilots_list =
     (case py_sort_key (pilot_sort_key (rhdata_get_option rc ''pilotSort''))
             (pilots_list @ [pilot_data rc pilot]) of
        Inl e \<Rightarrow> Inl e
      | Inr sorted_list \<Rightarrow> pilots_loop rc rest sorted_list)"

definition attribute_json :: "PilotAttribute \<Rightarrow> jv" where
  "attribute_json attr =
     JObj [(''name'', JStr (pa_name attr)), (''label'', JStr (pa_label attr)),
           (''fieldtype'', JStr (pa_fieldtype attr))]"

definition pilot_data_payload :: "racecontext \<Rightarrow> rhui \<Rightarrow> (string \<times> jv) list list \<Rightarrow> jv" where
  "pilot_data_payload rc ui pilots_list =
     JObj [(''pilots'', JList (map JObj pilots_list)),
           (''pilotSort'', jstr_opt (rhdata_get_option rc ''pilotSort'')),
           (''attributes'', JList (map attribute_json (pilot_attributes ui)))]"

text \<open>The last statement of \<^verbatim>\<open>emit_pilot_data\<close> is \<^verbatim>\<open>self.emit_heat_data()\<close>, without parameters.\<close>

definition emit_pilot_data :: "racecontext \<Rightarrow> rhui \<Rightarrow> params \<Rightarrow> world \<Rightarrow> exn + world" where
  "emit_pilot_data rc ui ps w =
     (case pilots_loop rc (rhdata_get_pilots rc) [] of
        Inl e \<Rightarrow> Inl e
      | Inr pilots_list \<Rightarrow>
          (case send_noself ps ''pilot_data'' (pilot_data_payload rc ui pilots_list) w of
             Inl e \<Rightarrow> Inl e
           | Inr w1 \<Rightarrow> emit_heat_data rc Map.empty w1))"

section \<open>Phonetic data\<close>

text \<open>Indexing a list: \<^verbatim>\<open>IndexError\<close> beyond its end. Node indices are not negative.\<close>

definition py_index :: "'a list \<Rightarrow> nat \<Rightarrow> exn + 'a" where
  "py_index xs i = (if i < length xs then Inr (xs ! i) else Inl IndexError)"

text \<open>
  The callsign made from the profile when no pilot is known: band and channel if both
  are truthy (a non-empty band, a non-zero channel), else the frequency. The channel is
  only read when the band is truthy, the frequency only when one of them is not.
\<close>

definition freq_callsign :: "freqs \<Rightarrow> nat \<Rightarrow> exn + string" where
  "freq_callsign profile_freqs idx =
     (let from_f = (case py_index (fq_f profile_freqs) idx of
                      Inl e \<Rightarrow> Inl e
                    | Inr f \<Rightarrow> Inr (str_int f))
      in case py_index (fq_b profile_freqs) idx of
           Inl e \<Rightarrow> Inl e
         | Inr None \<Rightarrow> from_f
         | Inr (Some b) \<Rightarrow>
             if b = [] then from_f
             else (case py_index (fq_c profile_freqs) idx of
                     Inl e \<Rightarrow> Inl e
                   | Inr None \<Rightarrow> from_f
                   | Inr (Some c) \<Rightarrow> if c = 0 then from_f else Inr (b @ str_int c)))"

definition emit_phonetic_data ::
  "racecontext \<Rightarrow> int \<Rightarrow> jv \<Rightarrow> jv \<Rightarrow> jv \<Rightarrow> jv \<Rightarrow> jv \<Rightarrow> jv \<Rightarrow> nat option \<Rightarrow> params \<Rightarrow> world
     \<Rightarrow> exn + world" where
  "emit_phonetic_data rc pilot_id lap_id lap_time team_name team_laps leader_flag node_finished
       node_index ps w =
     (let phonetic_time =
            phonetictime_format rc lap_time (rhdata_get_option rc ''timeFormatPhonetic'');
          emit_payload =
            [(''lap'', lap_id), (''raw_time'', lap_time), (''phonetic'', JStr phonetic_time),
             (''team_name'', team_name), (''team_laps'', team_laps),
             (''leader_flag'', leader_flag), (''node_finished'', node_finished)]
      in case rhdata_get_pilot rc pilot_id of
           Some pilot \<Rightarrow>
             send_default ps ''phonetic_data''
               (JObj (emit_payload @
                  [(''pilot'', JStr (p_phonetic pilot)), (''callsign'', JStr (p_callsign pilot)),
                   (''pilot_id'', JInt (p_id pilot))])) w
         | None \<Rightarrow>
             (case node_index of
                Some idx \<Rightarrow>
                  (case race_profile_frequencies rc of
                     Inl e \<Rightarrow> Inl e
                   | Inr profile_freqs \<Rightarrow>
                       (case freq_callsign profile_freqs idx of
                          Inl e \<Rightarrow> Inl e
                        | Inr callsign \<Rightarrow>
                            send_default ps ''phonetic_data''
                              (JObj (emit_payload @
                                 [(''pilot'', JStr callsign), (''callsign'', JStr callsign),
                                  (''pilot_id'', JNull)])) w))
              | None \<Rightarrow>
                  send_default ps ''phonetic_data''
                    (JObj (emit_payload @
                       [(''pilot'', JNull), (''callsign'', JNull), (''pilot_id'', JNull)])) w))"

text \<open>
  \<^verbatim>\<open>emit_phonetic_split\<close> reads \<^verbatim>\<open>pilot.phonetic\<close> straight after the lookup, with no
  test of the pilot: on \<^verbatim>\<open>None\<close> the attribute access raises.
\<close>

definition emit_phonetic_split ::
  "racecontext \<Rightarrow> int \<Rightarrow> int \<Rightarrow> jv \<Rightarrow> params \<Rightarrow> world \<Rightarrow> exn + world" where
  "emit_phonetic_split rc pilot_id split_id split_time ps w =
     (case rhdata_get_pilot rc pilot_id of
        None \<Rightarrow> Inl AttributeError
      | Some pilot \<Rightarrow>
          (let phonetic_name =
                 (if p_phonetic pilot \<noteq> [] then p_phonetic pilot else p_callsign pilot);
               phonetic_time =
                 phonetictime_format rc split_time (rhdata_get_option rc ''timeFormatPhonetic'');
               emit_payload =
                 JObj [(''pilot_name'', JStr phonetic_name),
                       (''split_id'', JStr (str_int (split_id + 1))),
                       (''split_time'', JStr phonetic_time)]
           in send_default ps ''phonetic_split_call'' emit_payload w))"

section \<open>IMD rating and table\<close>

text \<open>
  \<^verbatim>\<open>list(OrderedDict.fromkeys(xs))\<close>: the keys are inserted one after the other; a key
  that is already there stays where it is.
\<close>

fun fromkeys_loop :: "'a list \<Rightarrow> 'a list \<Rightarrow> 'a list" where
  "fromkeys_loop [] keys = keys"
| "fromkeys_loop (x # xs) keys = fromkeys_loop xs (if x \<in> set keys then keys else keys @ [x])"

definition fromkeys :: "'a list \<Rightarrow> 'a list" where
  "fromkeys xs = fromkeys_loop xs []"

fun fs_list_loop :: "int list \<Rightarrow> string list \<Rightarrow> string list" where
  "fs_list_loop [] fs_list = fs_list"
| "fs_list_loop (val # rest) fs_list =
     fs_list_loop rest (if 0 < val then fs_list @ [str_int val] else fs_list)"

definition imd_fs_list :: "nat \<Rightarrow> int list \<Rightarrow> string list" where
  "imd_fs_list num_nodes f = fs_list_loop (fromkeys (take num_nodes f)) []"

text \<open>
  \<^verbatim>\<open>str.rstrip()\<close> removes the trailing white space of the decoded text. Strings
  are held as their UTF-8 bytes, so a white-space character is one byte when it is ASCII
  (tab to carriage return, the four separators \<open>0x1C\<close> to \<open>0x1F\<close>, the space), two
  bytes for U+0085 and U+00A0, and three bytes for U+1680, U+2000 to U+200A, U+2028,
  U+2029, U+202F, U+205F and U+3000. \<open>rstrip_rev\<close> works on the reversed string: its
  first byte is the last byte of the text.
\<close>

definition is_space :: "char \<Rightarrow> bool" where
  "is_space c = (c \<in> set [CHR '' '', CHR 0x09, CHR 0x0A, CHR 0x0B, CHR 0x0C, CHR 0x0D,
                             CHR 0x1C, CHR 0x1D, CHR 0x1E, CHR 0x1F])"

definition is_space2 :: "char \<Rightarrow> char \<Rightarrow> bool" where
  "is_space2 b1 b2 = (b1 = CHR 0xC2 \<and> (b2 = CHR 0x85 \<or> b2 = CHR 0xA0))"

definition is_space3 :: "char \<Rightarrow> char \<Rightarrow> char \<Rightarrow> bool" where
  "is_space3 b1 b2 b3 =
     ((b1 = CHR 0xE1 \<and> b2 = CHR 0x9A \<and> b3 = CHR 0x80) \<or>
      (b1 = CHR 0xE2 \<and> b2 = CHR 0x80 \<and>
         (b3 \<in> set [CHR 0x80, CHR 0x81, CHR 0x82, CHR 0x83, CHR 0x84, CHR 0x85, CHR 0x86,
                    CHR 0x87, CHR 0x88, CHR 0x89, CHR 0x8A, CHR 0xA8, CHR 0xA9, CHR 0xAF])) \<or>
      (b1 = CHR 0xE2 \<and> b2 = CHR 0x81 \<and> b3 = CHR 0x9F) \<or>
      (b1 = CHR 0xE3 \<and> b2 = CHR 0x80 \<and> b3 = CHR 0x80))"

fun rstrip_rev :: "string \<Rightarrow> string" where
  "rstrip_rev (b3 # b2 # b1 # rest) =
     (if is_space b3 then rstrip_rev (b2 # b1 # rest)
      else if is_space2 b2 b3 then rstrip_rev (b1 # rest)
      else if is_space3 b1 b2 b3 then rstrip_rev rest
      else b3 # b2 # b1 # rest)"
| "rstrip_rev [b2, b1] =
     (if is_space b2 then rstrip_rev [b1]
      else if is_space2 b1 b2 then []
      else [b2, b1])"
| "rstrip_rev [b1] = (if is_space b1 then [] else [b1])"
| "rstrip_rev [] = []"

definition rstrip :: "string \<Rightarrow> string" where
  "rstrip s = rev (rstrip_rev (rev s))"

text \<open>
  The \<^verbatim>\<open>try\<close> block of \<^verbatim>\<open>emit_imdtabler_rating\<close>: its outcome (the value of
  \<^verbatim>\<open>imd_val\<close>, or the exception that left the block) and the world, in which the
  command line is recorded when the tool was started.
\<close>

definition imd_rating_try ::
  "racecontext \<Rightarrow> string \<Rightarrow> world \<Rightarrow> (exn + string option) \<times> world" where
  "imd_rating_try rc IMDTABLER_JAR_NAME w =
     (case race_profile_frequencies rc of
        Inl e \<Rightarrow> (Inl e, w)
      | Inr profile_freqs \<Rightarrow>
          (let fs_list = imd_fs_list (race_num_nodes rc) (fq_f profile_freqs) in
           if 2 < length fs_list then
             (let cmd = ''java -jar '' @ IMDTABLER_JAR_NAME @ '' -r '' @ join_sp fs_list;
                  w1 = w\<lparr>procs := procs w @ [cmd]\<rparr>
              in case check_output_utf8 rc cmd of
                   Inl e \<Rightarrow> (Inl e, w1)
                 | Inr out \<Rightarrow> (Inr (Some (rstrip out)), w1))
           else (Inr None, w)))"

definition emit_imdtabler_rating :: "racecontext \<Rightarrow> string \<Rightarrow> world \<Rightarrow> exn + world" where
  "emit_imdtabler_rating rc IMDTABLER_JAR_NAME w =
     (case imd_rating_try rc IMDTABLER_JAR_NAME w of
        (Inl e, w1) \<Rightarrow>
          Inr (socket_emit ''imdtabler_rating'' (JObj [(''imd_rating'', JNull)])
                 (logger_exception ''emit_imdtabler_rating exception'' e w1))
      | (Inr imd_val, w1) \<Rightarrow>
          Inr (socket_emit ''imdtabler_rating'' (JObj [(''imd_rating'', jstr_opt imd_val)]) w1))"

definition imd_data_try ::
  "racecontext \<Rightarrow> string \<Rightarrow> string list \<Rightarrow> world \<Rightarrow> (exn + string option) \<times> world" where
  "imd_data_try rc IMDTABLER_JAR_NAME fs_list w =
     (if 2 < length fs_list then
        (let cmd = ''java -jar '' @ IMDTABLER_JAR_NAME @ '' -t '' @ join_sp fs_list;
             w1 = w\<lparr>procs := procs w @ [cmd]\<rparr>
         in case check_output_utf8 rc cmd of
              Inl e \<Rightarrow> (Inl e, w1)
            | Inr out \<Rightarrow> (Inr (Some out), w1))
      else (Inr None, w))"

definition imd_data_payload :: "string list \<Rightarrow> string option \<Rightarrow> string option \<Rightarrow> jv" where
  "imd_data_payload fs_list imdtabler_data imdtabler_ver =
     JObj [(''freq_list'', JStr (join_sp fs_list)),
           (''table_data'', jstr_opt imdtabler_data),
           (''version_str'', jstr_opt imdtabler_ver)]"

definition emit_imdtabler_data ::
  "racecontext \<Rightarrow> string \<Rightarrow> string list \<Rightarrow> string option \<Rightarrow> params \<Rightarrow> world \<Rightarrow> exn + world" where
  "emit_imdtabler_data rc IMDTABLER_JAR_NAME fs_list imdtabler_ver ps w =
     (case imd_data_try rc IMDTABLER_JAR_NAME fs_list w of
        (Inl e, w1) \<Rightarrow>
          send_default ps ''imdtabler_data'' (imd_data_payload fs_list None imdtabler_ver)
            (logger_exception ''emit_imdtabler_data exception'' e w1)
      | (Inr imdtabler_data, w1) \<Rightarrow>
          send_default ps ''imdtabler_data''
            (imd_data_payload fs_list imdtabler_data imdtabler_ver) w1)"

section \<open>What the claims speak about\<close>

text \<open>
  The list in which each element of \<open>xs\<close> stands once, at the place of its first
  occurrence: the meaning of "de-duplicated, preserving first-seen order".
\<close>

definition first_occurrences :: "'a list \<Rightarrow> 'a list" where
  "first_occurrences xs =
     map (\<lambda>i. xs ! i) (filter (\<lambda>i. xs ! i \<notin> set (take i xs)) [0..<length xs])"

text \<open>
  A pilot dictionary whose \<^verbatim>\<open>callsign\<close> and \<^verbatim>\<open>name\<close> entries are strings, and the
  pair of strings it is sorted by under the configured mode.
\<close>

definition string_keys :: "(string \<times> jv) list \<Rightarrow> bool" where
  "string_keys d = (key_str d ''callsign'' \<noteq> None \<and> key_str d ''name'' \<noteq> None)"

definition str_entry :: "(string \<times> jv) list \<Rightarrow> string \<Rightarrow> string" where
  "str_entry d k = (case key_str d k of Some s \<Rightarrow> s | None \<Rightarrow> [])"

definition pilot_key_pair :: "string option \<Rightarrow> (string \<times> jv) list \<Rightarrow> string \<times> string" where
  "pilot_key_pair pilotSort x =
     (if pilotSort = Some ''callsign'' then (str_entry x ''callsign'', str_entry x ''name'')
      else (str_entry x ''name'', str_entry x ''callsign''))"

text \<open>The list under \<^verbatim>\<open>pilots\<close> of a pilot-data payload, as sent.\<close>

definition payload_pilots :: "jv \<Rightarrow> jv list" where
  "payload_pilots p =
     (case p of
        JObj d \<Rightarrow> (case dict_get d ''pilots'' of Some (JList ps) \<Rightarrow> ps | _ \<Rightarrow> [])
      | _ \<Rightarrow> [])"

text \<open>The node indices of the slots of each heat of a heat-data payload, as sent.\<close>

definition slot_node_index :: "jv \<Rightarrow> jv" where
  "slot_node_index slot =
     (case slot of
        JObj d \<Rightarrow> (case dict_get d ''node_index'' of Some v \<Rightarrow> v | None \<Rightarrow> JNull)
      | _ \<Rightarrow> JNull)"

definition heat_slot_indices :: "jv \<Rightarrow> jv list" where
  "heat_slot_indices h =
     (case h of
        JObj d \<Rightarrow> (case dict_get d ''slots'' of Some (JList slots) \<Rightarrow> map slot_node_index slots
                   | _ \<Rightarrow> [])
      | _ \<Rightarrow> [])"

definition payload_slot_indices :: "jv \<Rightarrow> jv list list" where
  "payload_slot_indices p =
     (case p of
        JObj d \<Rightarrow> (case dict_get d ''heats'' of Some (JList hs) \<Rightarrow> map heat_slot_indices hs
                   | _ \<Rightarrow> [])
      | _ \<Rightarrow> [])"

section \<open>A small race context to run the operations on\<close>

definition example_heatnode :: "int \<Rightarrow> nat option \<Rightarrow> heatnode" where
  "example_heatnode i idx =
     \<lparr>hn_id = JInt i, hn_node_index = idx, hn_pilot_id = JInt 0, hn_color = JNull,
      hn_method = 0, hn_seed_rank = JNull, hn_seed_id = JNull\<rparr>"

definition example_pilot :: "int \<Rightarrow> string \<Rightarrow> string \<Rightarrow> pilot" where
  "example_pilot i callsign name =
     \<lparr>p_id = i, p_callsign = callsign, p_team = ''A'', p_phonetic = [], p_name = name,
      p_active = JBool True, p_color = JNull\<rparr>"

definition example_pilots :: "pilot list" where
  "example_pilots =
     [example_pilot 1 ''Zed'' ''Ann'', example_pilot 2 ''Ace'' ''Bob'', example_pilot 3 ''Ace'' ''Al'']"

definition example_rc :: racecontext where
  "example_rc =
     \<lparr>rhdata_get_heats =
        [\<lparr>h_id = 1, h_note = JNull, h_displayname = ''Heat 1'', h_class_id = JInt 0,
          h_order = JNull, h_status = JInt 0, h_auto_frequency = JBool False\<rparr>],
      rhdata_get_heatNodes_by_heat =
        (\<lambda>h. if h = 1
              then [example_heatnode 1 (Some 2), example_heatnode 2 (Some 0),
                    example_heatnode 3 None]
              else []),
      rhdata_savedRaceMetas_has_heat = (\<lambda>h. False),
      rhdata_get_pilots = example_pilots,
      rhdata_get_pilot = (\<lambda>i. find (\<lambda>p. p_id p = i) example_pilots),
      rhdata_get_pilot_attributes = (\<lambda>p. []),
      rhdata_savedPilotRaces_has_pilot = (\<lambda>i. False),
      rhdata_TEAM_NAMES_LIST = [''A'', ''B''],
      rhdata_get_option = [''pilotSort'' \<mapsto> ''callsign''],
      led_manager_isEnabled = False,
      race_profile_frequencies =
        Inr \<lparr>fq_b = [Some ''F'', Some ''F'', None, Some ''F'', None, Some ''F''],
             fq_c = [Some 4, Some 4, None, Some 8, None, Some 4],
             fq_f = [5800, 5800, 0, 5880, 0, 5800]\<rparr>,
      race_num_nodes = 6,
      pagecache_get_cache = Inr (JObj [(''heats'', JObj [])]),
      phonetictime_format = (\<lambda>t f. ''1:02.3''),
      check_output_utf8 = (\<lambda>c. Inl (CalledProcessError 1)),
      PM_HEAT_RESULT = 1,
      PM_CLASS_RESULT = 2\<rparr>"

text \<open>The same context with four distinct frequencies, so that the IMD tool is started.\<close>

definition example_rc4 :: racecontext where
  "example_rc4 =
     example_rc\<lparr>race_profile_frequencies :=
        Inr \<lparr>fq_b = [Some ''R'', Some ''R'', Some ''R'', Some ''R''],
             fq_c = [Some 1, Some 2, Some 3, Some 4],
             fq_f = [5658, 5695, 5732, 5769]\<rparr>,
       race_num_nodes := 4\<rparr>"

text \<open>No request is being handled, nothing has been sent, published, logged or run.\<close>

definition example_world :: world where
  "example_world = \<lparr>request_sid = None, wire = [], events = [], logged = [], procs = []\<rparr>"

section \<open>Registry: panel settings\<close>

lemma panel_settings_loop_filter:
  "panel_settings_loop name ss payload = payload @ filter (\<lambda>s. gs_panel s = name) ss"
  by (induction ss arbitrary: payload) simp_all

lemma general_settings_register_call:
  "general_settings (register_call ui c) = general_settings ui @ [setting_of c]"
  by (cases c) (simp add: register_general_setting_def)

lemma general_settings_register_all:
  "general_settings (register_all ui calls) = general_settings ui @ map setting_of calls"
  unfolding register_all_def
  by (induction calls arbitrary: ui) (simp_all add: general_settings_register_call)

text \<open>
  C4. After any sequence of \<open>register_general_setting\<close> calls on a fresh instance,
  \<open>get_panel_settings p\<close> is exactly the registered settings whose panel is \<open>p\<close>, in the
  order of registration.
\<close>

theorem get_panel_settings_registered:
  "get_panel_settings (register_all rhui_init calls) p =
     filter (\<lambda>s. gs_panel s = p) (map setting_of calls)"
  by (simp add: get_panel_settings_def panel_settings_loop_filter
        general_settings_register_all rhui_init_def)

section \<open>Priority messages and first pass: one event per broadcast\<close>

text \<open>
  C6. A call of \<open>emit_priority_message\<close> that goes to all clients (no \<^verbatim>\<open>nobroadcast\<close>
  parameter) publishes exactly one event: \<open>MESSAGE_INTERRUPT\<close> when the interrupt flag
  is set, \<open>MESSAGE_STANDARD\<close> otherwise. Its data are the message and the flag of the
  wire payload, and the caller.
\<close>

theorem priority_message_one_event:
  assumes "\<not> has_param ps ''nobroadcast''"
  shows "emit_priority_message message interrupt caller ps w =
           Inr (w\<lparr>events := events w @
                    [(if interrupt then MESSAGE_INTERRUPT else MESSAGE_STANDARD,
                      JObj [(''message'', JStr message), (''interrupt'', JBool interrupt),
                            (''caller'', caller)])],
                  wire := wire w @
                    [\<lparr>m_topic = ''priority_message'',
                      m_payload = JObj [(''message'', JStr message),
                                        (''interrupt'', JBool interrupt)],
                      m_target = ToAll\<rparr>]\<rparr>)"
  using assms
  by (simp add: emit_priority_message_def events_trigger_def socket_emit_def)

theorem priority_message_one_event_witness:
  "emit_priority_message ''Race stopped'' True (JStr ''plugin'') Map.empty example_world =
     Inr (example_world\<lparr>events :=
            [(MESSAGE_INTERRUPT,
              JObj [(''message'', JStr ''Race stopped''), (''interrupt'', JBool True),
                    (''caller'', JStr ''plugin'')])],
          wire :=
            [\<lparr>m_topic = ''priority_message'',
              m_payload = JObj [(''message'', JStr ''Race stopped''), (''interrupt'', JBool True)],
              m_target = ToAll\<rparr>]\<rparr>)"
proof -
  have h: "\<not> has_param Map.empty ''nobroadcast''"
    by (simp add: has_param_def)
  show ?thesis
    using priority_message_one_event [OF h, of "''Race stopped''" True "JStr ''plugin''" example_world]
    by (simp add: example_world_def)
qed

text \<open>
  C9. A broadcast call of \<open>emit_first_pass_registered\<close> with node index \<open>n\<close> sends one
  message on the first-pass topic to all clients, with \<open>node_index = n\<close>, and publishes
  exactly one \<open>RACE_FIRST_PASS\<close> event with the same node index.
\<close>

theorem first_pass_broadcast:
  assumes "\<not> has_param ps ''nobroadcast''"
  shows "emit_first_pass_registered n ps w =
           Inr (w\<lparr>events := events w @ [(RACE_FIRST_PASS, JObj [(''node_index'', n)])],
                  wire := wire w @
                    [\<lparr>m_topic = ''first_pass_registered'',
                      m_payload = JObj [(''node_index'', n)],
                      m_target = ToAll\<rparr>]\<rparr>)"
  using assms
  by (simp add: emit_first_pass_registered_def events_trigger_def send_default_def
        socket_emit_def)

theorem first_pass_broadcast_witness:
  "emit_first_pass_registered (JInt 3) Map.empty example_world =
     Inr (example_world\<lparr>events := [(RACE_FIRST_PASS, JObj [(''node_index'', JInt 3)])],
          wire :=
            [\<lparr>m_topic = ''first_pass_registered'',
              m_payload = JObj [(''node_index'', JInt 3)],
              m_target = ToAll\<rparr>]\<rparr>)"
proof -
  have h: "\<not> has_param Map.empty ''nobroadcast''"
    by (simp add: has_param_def)
  show ?thesis
    using first_pass_broadcast [OF h, of "JInt 3" example_world]
    by (simp add: example_world_def)
qed

section \<open>Result data without a caller\<close>

lemma result_data_thread_no_sid:
  "pagecache_get_cache rc = Inr p \<Longrightarrow>
   emit_result_data_thread rc ps None w = socket_emit ''result_data'' p w"
  by (simp add: emit_result_data_thread_def catchLogExceptionsWrapper_def
        emit_result_data_thread_body_def split: bool.splits)

text \<open>
  C2, as the code has it. A call that asks for caller-only delivery of the result data
  while no request is active hands no session id to the thread; the thread then takes
  the broadcast branch: the cache goes to all sessions and nothing is logged.
\<close>

theorem result_data_no_caller_broadcast:
  assumes "has_param ps ''nobroadcast''"
      and "request_sid w = None"
      and "pagecache_get_cache rc = Inr p"
  shows "emit_result_data rc ps w =
           w\<lparr>wire := wire w @
                [\<lparr>m_topic = ''result_data'', m_payload = p, m_target = ToAll\<rparr>]\<rparr>"
  using assms
  by (simp add: emit_result_data_def result_data_thread_no_sid socket_emit_def)

theorem result_data_no_caller_broadcast_witness:
  "emit_result_data example_rc [''nobroadcast'' \<mapsto> JBool True] example_world =
     example_world\<lparr>wire :=
       [\<lparr>m_topic = ''result_data'', m_payload = JObj [(''heats'', JObj [])],
         m_target = ToAll\<rparr>]\<rparr>"
proof -
  have a: "has_param [''nobroadcast'' \<mapsto> JBool True] ''nobroadcast''"
    by (simp add: has_param_def)
  have b: "request_sid example_world = None"
    by (simp add: example_world_def)
  have c: "pagecache_get_cache example_rc = Inr (JObj [(''heats'', JObj [])])"
    by (simp add: example_rc_def)
  show ?thesis
    using result_data_no_caller_broadcast [OF a b c]
    by (simp add: example_world_def)
qed

text \<open>
  The claim as stated fails: with \<^verbatim>\<open>nobroadcast\<close> and no request, the message is
  addressed to all (three sessions all receive it), and the log stays empty.
\<close>

theorem result_data_caller_only_counterexample:
  "has_param [''nobroadcast'' \<mapsto> JBool True] ''nobroadcast'' \<and>
   request_sid example_world = None \<and>
   map m_target
     (wire (emit_result_data example_rc [''nobroadcast'' \<mapsto> JBool True] example_world)) =
     [ToAll] \<and>
   recipients [''s1'', ''s2'', ''s3''] ToAll = [''s1'', ''s2'', ''s3''] \<and>
   logged (emit_result_data example_rc [''nobroadcast'' \<mapsto> JBool True] example_world) = []"
  by (simp add: emit_result_data_def emit_result_data_thread_def catchLogExceptionsWrapper_def
        emit_result_data_thread_body_def socket_emit_def has_param_def example_world_def
        example_rc_def)

section \<open>Missing pilots\<close>

text \<open>
  \<open>emit_phonetic_data\<close> tests the pilot it looked up: without a pilot and without a node
  index the three pilot fields are null and the payload is sent all the same.
\<close>

lemma phonetic_data_missing_pilot:
  assumes "rhdata_get_pilot rc pilot_id = None"
  shows "emit_phonetic_data rc pilot_id lap_id lap_time team_name team_laps leader_flag
           node_finished None ps w =
         send_default ps ''phonetic_data''
           (JObj [(''lap'', lap_id), (''raw_time'', lap_time),
                  (''phonetic'', JStr (phonetictime_format rc lap_time
                                        (rhdata_get_option rc ''timeFormatPhonetic''))),
                  (''team_name'', team_name), (''team_laps'', team_laps),
                  (''leader_flag'', leader_flag), (''node_finished'', node_finished),
                  (''pilot'', JNull), (''callsign'', JNull), (''pilot_id'', JNull)]) w"
  using assms by (simp add: emit_phonetic_data_def)

text \<open>
  C3 fails on \<open>emit_phonetic_split\<close>: when the lookup finds no pilot, the operation
  raises \<open>AttributeError\<close>; no payload is built and nothing is sent.
\<close>

theorem phonetic_split_missing_pilot:
  assumes "rhdata_get_pilot rc pilot_id = None"
  shows "emit_phonetic_split rc pilot_id split_id split_time ps w = Inl AttributeError"
  using assms by (simp add: emit_phonetic_split_def)

theorem phonetic_split_missing_pilot_witness:
  "rhdata_get_pilot example_rc 7 = None \<and>
   emit_phonetic_split example_rc 7 0 (JInt 1500) Map.empty example_world = Inl AttributeError"
proof -
  have h: "rhdata_get_pilot example_rc 7 = None"
    by (simp add: example_rc_def example_pilots_def example_pilot_def)
  show ?thesis
    using h phonetic_split_missing_pilot [OF h, of 0 "JInt 1500" Map.empty example_world]
    by simp
qed

section \<open>Heat data: the order of the slots\<close>

lemma heatNodeSorter_zero_is_sentinel:
  "heatNodeSorter (n\<lparr>hn_node_index := Some 0\<rparr>) = - 1 \<and>
   heatNodeSorter (n\<lparr>hn_node_index := None\<rparr>) = - 1"
  by (simp add: heatNodeSorter_def)

text \<open>The order the specification gives as its example is the one the code produces.\<close>

lemma heat_nodes_spec_example:
  "map hn_node_index
     (sort_key heatNodeSorter
        [example_heatnode 1 (Some 2), example_heatnode 2 None, example_heatnode 3 (Some 0)]) =
   [None, Some 0, Some 2]"
  by (simp add: heatNodeSorter_def example_heatnode_def)

text \<open>
  C1 fails when a node with index 0 is registered before a node without index: both
  get the key \<open>-1\<close>, the stable sort keeps them in registration order, and the slot of
  node 0 comes before the slot with the null index. Registered as \<open>[2, 0, null]\<close>, the
  slots of the payload are \<open>[0, null, 2]\<close>.
\<close>

theorem heat_slots_zero_before_null:
  "map hn_node_index (rhdata_get_heatNodes_by_heat example_rc 1) = [Some 2, Some 0, None] \<and>
   map hn_node_index (sorted_heatNodes example_rc 1) = [Some 0, None, Some 2] \<and>
   payload_slot_indices (heat_data_payload example_rc) = [[JInt 0, JNull, JInt 2]] \<and>
   emit_heat_data example_rc Map.empty example_world =
     Inr (socket_emit ''heat_data'' (heat_data_payload example_rc) example_world)"
  by (simp add: example_rc_def example_heatnode_def sorted_heatNodes_def heatNodeSorter_def
        heat_data_payload_def current_heat_def current_node_def node_index_json_def
        payload_slot_indices_def heat_slot_indices_def slot_node_index_def dict_get_def
        emit_heat_data_def send_noself_def has_param_def)

section \<open>The frequency list of the IMD rating\<close>

lemma fs_list_loop_filter:
  "fs_list_loop xs acc = acc @ map str_int (filter (\<lambda>v. 0 < v) xs)"
  by (induction xs arbitrary: acc) simp_all

lemma fromkeys_loop_snoc:
  "fromkeys_loop (xs @ [x]) keys =
     (if x \<in> set (fromkeys_loop xs keys) then fromkeys_loop xs keys
      else fromkeys_loop xs keys @ [x])"
  by (induction xs arbitrary: keys) simp_all

lemma set_fromkeys_loop: "set (fromkeys_loop xs keys) = set keys \<union> set xs"
  by (induction xs arbitrary: keys) auto

lemma distinct_fromkeys_loop: "distinct keys \<Longrightarrow> distinct (fromkeys_loop xs keys)"
  by (induction xs arbitrary: keys) simp_all

lemma distinct_fromkeys: "distinct (fromkeys xs)"
  by (simp add: fromkeys_def distinct_fromkeys_loop)

lemma set_fromkeys: "set (fromkeys xs) = set xs"
  by (simp add: fromkeys_def set_fromkeys_loop)

lemma first_occurrences_snoc:
  "first_occurrences (xs @ [x]) =
     (if x \<in> set xs then first_occurrences xs else first_occurrences xs @ [x])"
proof -
  have a: "filter (\<lambda>i. (xs @ [x]) ! i \<notin> set (take i (xs @ [x]))) [0..<length xs] =
           filter (\<lambda>i. xs ! i \<notin> set (take i xs)) [0..<length xs]"
    by (rule filter_cong) (simp_all add: nth_append)
  have b: "map (\<lambda>i. (xs @ [x]) ! i)
             (filter (\<lambda>i. xs ! i \<notin> set (take i xs)) [0..<length xs]) =
           map (\<lambda>i. xs ! i) (filter (\<lambda>i. xs ! i \<notin> set (take i xs)) [0..<length xs])"
    by (rule map_cong) (simp_all add: nth_append)
  show ?thesis
    unfolding first_occurrences_def
    using a b by simp
qed

text \<open>\<^verbatim>\<open>OrderedDict.fromkeys\<close> keeps exactly the first occurrences, in their order.\<close>

lemma fromkeys_first_occurrences: "fromkeys xs = first_occurrences xs"
proof (induction xs rule: rev_induct)
  case Nil
  show ?case by (simp add: fromkeys_def first_occurrences_def)
next
  case (snoc x xs)
  have "set (first_occurrences xs) = set xs"
    using snoc set_fromkeys_loop [of xs "[]"] by (simp add: fromkeys_def)
  with snoc show ?case
    by (simp add: fromkeys_def fromkeys_loop_snoc first_occurrences_snoc)
qed

lemma imd_fs_list_positive:
  "imd_fs_list n f = map str_int (filter (\<lambda>v. 0 < v) (first_occurrences (take n f)))"
  by (simp add: imd_fs_list_def fs_list_loop_filter fromkeys_first_occurrences)

lemma length_imd_fs_list:
  "length (imd_fs_list n f) = card {v \<in> set (take n f). 0 < v}"
proof -
  have "distinct (filter (\<lambda>v. 0 < v) (fromkeys (take n f)))"
    by (simp add: distinct_fromkeys)
  then have "length (filter (\<lambda>v. 0 < v) (fromkeys (take n f))) =
             card (set (filter (\<lambda>v. 0 < v) (fromkeys (take n f))))"
    by (simp only: distinct_card)
  also have "set (filter (\<lambda>v. 0 < v) (fromkeys (take n f))) = {v \<in> set (take n f). 0 < v}"
    by (simp add: set_fromkeys)
  finally show ?thesis
    by (simp add: imd_fs_list_def fs_list_loop_filter)
qed

lemma positive_is_nonzero:
  assumes "\<forall>v \<in> set xs. (0::int) \<le> v"
  shows "filter (\<lambda>v. 0 < v) xs = filter (\<lambda>v. v \<noteq> 0) xs"
  using assms by (intro filter_cong) auto

lemma imd_fs_list_example:
  "imd_fs_list 6 [5800, 5800, 0, 5880, 0, 5800] = [''5800'', ''5880'']"
  by (simp add: imd_fs_list_def fromkeys_def str_int_def digit_char_def)

lemma rating_not_started:
  assumes "race_profile_frequencies rc = Inr fr"
      and "length (imd_fs_list (race_num_nodes rc) (fq_f fr)) < 3"
  shows "emit_imdtabler_rating rc jar w =
          Inr (w\<lparr>wire := wire w @
                 [\<lparr>m_topic = ''imdtabler_rating'', m_payload = JObj [(''imd_rating'', JNull)],
                   m_target = ToAll\<rparr>]\<rparr>)"
  using assms
  by (simp add: emit_imdtabler_rating_def imd_rating_try_def socket_emit_def jstr_opt_def)

lemma rating_started:
  assumes "race_profile_frequencies rc = Inr fr"
      and "2 < length (imd_fs_list (race_num_nodes rc) (fq_f fr))"
  shows "\<exists>w'. emit_imdtabler_rating rc jar w = Inr w' \<and>
              procs w' = procs w @
                [''java -jar '' @ jar @ '' -r '' @
                 join_sp (imd_fs_list (race_num_nodes rc) (fq_f fr))]"
proof (cases "check_output_utf8 rc (''java -jar '' @ jar @ '' -r '' @
                 join_sp (imd_fs_list (race_num_nodes rc) (fq_f fr)))")
  case (Inl e)
  with assms show ?thesis
    by (simp add: emit_imdtabler_rating_def imd_rating_try_def socket_emit_def Let_def
          logger_exception_def)
next
  case (Inr out)
  with assms show ?thesis
    by (simp add: emit_imdtabler_rating_def imd_rating_try_def socket_emit_def Let_def)
qed

text \<open>
  C5. The list handed to the IMD tool by \<open>emit_imdtabler_rating\<close> is made of the
  frequencies of the active profile for the timer's nodes, each kept once at its first
  occurrence, without the zero entries, as decimal strings; its length is the number of
  distinct non-zero frequencies. With fewer than three entries the tool is not started
  (\<open>procs\<close> is unchanged) and \<open>imd_rating\<close> is null; with three or more it is started on
  that list.
\<close>

theorem imd_rating_frequency_list:
  assumes "race_profile_frequencies rc = Inr fr"
      and "\<forall>v \<in> set (fq_f fr). 0 \<le> v"
  shows "imd_fs_list (race_num_nodes rc) (fq_f fr) =
           map str_int
             (filter (\<lambda>v. v \<noteq> 0) (first_occurrences (take (race_num_nodes rc) (fq_f fr)))) \<and>
         length (imd_fs_list (race_num_nodes rc) (fq_f fr)) =
           card {v \<in> set (take (race_num_nodes rc) (fq_f fr)). v \<noteq> 0} \<and>
         imd_fs_list 6 [5800, 5800, 0, 5880, 0, 5800] = [''5800'', ''5880''] \<and>
         (length (imd_fs_list (race_num_nodes rc) (fq_f fr)) < 3 \<longrightarrow>
            emit_imdtabler_rating rc jar w =
              Inr (w\<lparr>wire := wire w @
                     [\<lparr>m_topic = ''imdtabler_rating'',
                       m_payload = JObj [(''imd_rating'', JNull)],
                       m_target = ToAll\<rparr>]\<rparr>)) \<and>
         (2 < length (imd_fs_list (race_num_nodes rc) (fq_f fr)) \<longrightarrow>
            (\<exists>w'. emit_imdtabler_rating rc jar w = Inr w' \<and>
                  procs w' = procs w @
                    [''java -jar '' @ jar @ '' -r '' @
                     join_sp (imd_fs_list (race_num_nodes rc) (fq_f fr))]))"
proof -
  let ?n = "race_num_nodes rc"
  have taken: "0 \<le> v" if "v \<in> set (take ?n (fq_f fr))" for v
    using that assms(2) in_set_takeD by fast
  have nonneg: "\<forall>v \<in> set (first_occurrences (take ?n (fq_f fr))). 0 \<le> v"
    using taken set_fromkeys [of "take ?n (fq_f fr)"]
    by (simp add: fromkeys_first_occurrences)
  have a: "imd_fs_list ?n (fq_f fr) =
             map str_int (filter (\<lambda>v. v \<noteq> 0) (first_occurrences (take ?n (fq_f fr))))"
    by (simp only: imd_fs_list_positive positive_is_nonzero [OF nonneg])
  have "{v \<in> set (take ?n (fq_f fr)). 0 < v} = {v \<in> set (take ?n (fq_f fr)). v \<noteq> 0}"
    using taken by force
  then have b: "length (imd_fs_list ?n (fq_f fr)) = card {v \<in> set (take ?n (fq_f fr)). v \<noteq> 0}"
    by (simp add: length_imd_fs_list)
  show ?thesis
  proof (intro conjI impI)
    show "imd_fs_list ?n (fq_f fr) =
            map str_int (filter (\<lambda>v. v \<noteq> 0) (first_occurrences (take ?n (fq_f fr))))"
      by (rule a)
    show "length (imd_fs_list ?n (fq_f fr)) = card {v \<in> set (take ?n (fq_f fr)). v \<noteq> 0}"
      by (rule b)
    show "imd_fs_list 6 [5800, 5800, 0, 5880, 0, 5800] = [''5800'', ''5880'']"
      by (rule imd_fs_list_example)
  next
    assume "length (imd_fs_list ?n (fq_f fr)) < 3"
    with assms(1) show "emit_imdtabler_rating rc jar w =
        Inr (w\<lparr>wire := wire w @
               [\<lparr>m_topic = ''imdtabler_rating'', m_payload = JObj [(''imd_rating'', JNull)],
                 m_target = ToAll\<rparr>]\<rparr>)"
      by (rule rating_not_started)
  next
    assume "2 < length (imd_fs_list ?n (fq_f fr))"
    with assms(1) show "\<exists>w'. emit_imdtabler_rating rc jar w = Inr w' \<and>
        procs w' = procs w @
          [''java -jar '' @ jar @ '' -r '' @ join_sp (imd_fs_list ?n (fq_f fr))]"
      by (rule rating_started)
  qed
qed

theorem imd_rating_frequency_list_witness:
  "fq_f \<lparr>fq_b = [Some ''F'', Some ''F'', None, Some ''F'', None, Some ''F''],
         fq_c = [Some 4, Some 4, None, Some 8, None, Some 4],
         fq_f = [5800, 5800, 0, 5880, 0, 5800]\<rparr> = [5800, 5800, 0, 5880, 0, 5800] \<and>
   imd_fs_list (race_num_nodes example_rc) [5800, 5800, 0, 5880, 0, 5800] = [''5800'', ''5880''] \<and>
   emit_imdtabler_rating example_rc ''IMDTabler.jar'' example_world =
     Inr (example_world\<lparr>wire :=
            [\<lparr>m_topic = ''imdtabler_rating'', m_payload = JObj [(''imd_rating'', JNull)],
              m_target = ToAll\<rparr>]\<rparr>)"
proof -
  let ?fr = "\<lparr>fq_b = [Some ''F'', Some ''F'', None, Some ''F'', None, Some ''F''],
              fq_c = [Some 4, Some 4, None, Some 8, None, Some 4],
              fq_f = [5800, 5800, 0, 5880, 0, 5800]\<rparr>"
  have h1: "race_profile_frequencies example_rc = Inr ?fr"
    by (simp add: example_rc_def)
  have h2: "\<forall>v \<in> set (fq_f ?fr). 0 \<le> v"
    by simp
  have n: "race_num_nodes example_rc = 6"
    by (simp add: example_rc_def)
  have short: "length (imd_fs_list (race_num_nodes example_rc) (fq_f ?fr)) < 3"
    by (simp add: n imd_fs_list_example)
  have "emit_imdtabler_rating example_rc ''IMDTabler.jar'' example_world =
          Inr (example_world\<lparr>wire := wire example_world @
                 [\<lparr>m_topic = ''imdtabler_rating'', m_payload = JObj [(''imd_rating'', JNull)],
                   m_target = ToAll\<rparr>]\<rparr>)"
  proof -
    note t = imd_rating_frequency_list [OF h1 h2, of "''IMDTabler.jar''" example_world]
    from t [THEN conjunct2, THEN conjunct2, THEN conjunct2, THEN conjunct1] short
    show ?thesis by (rule mp)
  qed
  then show ?thesis
    by (simp add: n imd_fs_list_example example_world_def)
qed

section \<open>Failures of the IMD tool\<close>

lemma send_default_target:
  assumes "has_param ps ''nobroadcast'' \<longrightarrow> request_sid w = Some s"
  shows "send_default ps t p w =
           Inr (w\<lparr>wire := wire w @
                  [\<lparr>m_topic = t, m_payload = p,
                    m_target = (if has_param ps ''nobroadcast'' then ToRoom s else ToAll)\<rparr>]\<rparr>)"
  using assms
  by (simp add: send_default_def flask_emit_def socket_emit_def)

lemma rating_failure:
  assumes "race_profile_frequencies rc = Inr fr"
      and "2 < length (imd_fs_list (race_num_nodes rc) (fq_f fr))"
      and "check_output_utf8 rc (''java -jar '' @ jar @ '' -r '' @
              join_sp (imd_fs_list (race_num_nodes rc) (fq_f fr))) = Inl e"
  shows "emit_imdtabler_rating rc jar w =
          Inr (w\<lparr>procs := procs w @ [''java -jar '' @ jar @ '' -r '' @
                     join_sp (imd_fs_list (race_num_nodes rc) (fq_f fr))],
                 logged := logged w @ [(''emit_imdtabler_rating exception'', e)],
                 wire := wire w @
                 [\<lparr>m_topic = ''imdtabler_rating'', m_payload = JObj [(''imd_rating'', JNull)],
                   m_target = ToAll\<rparr>]\<rparr>)"
  using assms
  by (simp add: emit_imdtabler_rating_def imd_rating_try_def socket_emit_def Let_def
      logger_exception_def)

lemma imd_data_try_failure:
  assumes "2 < length fs_list"
      and "check_output_utf8 rc (''java -jar '' @ jar @ '' -t '' @ join_sp fs_list) = Inl e"
  shows "imd_data_try rc jar fs_list w =
           (Inl e, w\<lparr>procs := procs w @ [''java -jar '' @ jar @ '' -t '' @ join_sp fs_list]\<rparr>)"
  using assms by (simp add: imd_data_try_def Let_def)

lemma data_failure:
  assumes "2 < length fs_list"
      and "check_output_utf8 rc (''java -jar '' @ jar @ '' -t '' @ join_sp fs_list) = Inl e"
      and "has_param ps ''nobroadcast'' \<longrightarrow> request_sid w = Some s"
  shows "emit_imdtabler_data rc jar fs_list ver ps w =
          Inr (w\<lparr>procs := procs w @ [''java -jar '' @ jar @ '' -t '' @ join_sp fs_list],
                 logged := logged w @ [(''emit_imdtabler_data exception'', e)],
                 wire := wire w @
                 [\<lparr>m_topic = ''imdtabler_data'',
                   m_payload = JObj [(''freq_list'', JStr (join_sp fs_list)),
                                     (''table_data'', JNull),
                                     (''version_str'', jstr_opt ver)],
                   m_target = (if has_param ps ''nobroadcast'' then ToRoom s else ToAll)\<rparr>]\<rparr>)"
proof (cases "has_param ps ''nobroadcast''")
  case True
  with assms(3) have rq: "request_sid w = Some s"
    by simp
  show ?thesis
    by (simp add: emit_imdtabler_data_def imd_data_try_failure [OF assms(1,2)]
          send_default_def True flask_emit_def logger_exception_def rq
          imd_data_payload_def jstr_opt_def)
next
  case False
  show ?thesis
    by (simp add: emit_imdtabler_data_def imd_data_try_failure [OF assms(1,2)]
          send_default_def False socket_emit_def logger_exception_def
          imd_data_payload_def jstr_opt_def)
qed

text \<open>
  C8. When the IMD tool is started and the call raises (whatever the exception: a
  non-zero exit, a missing binary, an expired timeout), both operations catch it, write
  one log record, send their payload with a null data field and return normally. For
  \<open>emit_imdtabler_data\<close> with \<^verbatim>\<open>nobroadcast\<close>, returning normally needs the request
  that the caller-only send needs in any case.
\<close>

theorem imd_process_failure_null:
  "(race_profile_frequencies rc = Inr fr \<and>
    2 < length (imd_fs_list (race_num_nodes rc) (fq_f fr)) \<and>
    check_output_utf8 rc (''java -jar '' @ jar @ '' -r '' @
       join_sp (imd_fs_list (race_num_nodes rc) (fq_f fr))) = Inl e \<longrightarrow>
    emit_imdtabler_rating rc jar w =
      Inr (w\<lparr>procs := procs w @ [''java -jar '' @ jar @ '' -r '' @
                 join_sp (imd_fs_list (race_num_nodes rc) (fq_f fr))],
             logged := logged w @ [(''emit_imdtabler_rating exception'', e)],
             wire := wire w @
               [\<lparr>m_topic = ''imdtabler_rating'', m_payload = JObj [(''imd_rating'', JNull)],
                 m_target = ToAll\<rparr>]\<rparr>)) \<and>
   (2 < length fs_list \<and>
    check_output_utf8 rc (''java -jar '' @ jar @ '' -t '' @ join_sp fs_list) = Inl e' \<and>
    (has_param ps ''nobroadcast'' \<longrightarrow> request_sid w = Some s) \<longrightarrow>
    emit_imdtabler_data rc jar fs_list ver ps w =
       Inr (w\<lparr>procs := procs w @ [''java -jar '' @ jar @ '' -t '' @ join_sp fs_list],
              logged := logged w @ [(''emit_imdtabler_data exception'', e')],
              wire := wire w @
                [\<lparr>m_topic = ''imdtabler_data'',
                  m_payload = JObj [(''freq_list'', JStr (join_sp fs_list)),
                                    (''table_data'', JNull),
                                    (''version_str'', jstr_opt ver)],
                  m_target = (if has_param ps ''nobroadcast'' then ToRoom s else ToAll)\<rparr>]\<rparr>))"
proof (intro conjI impI)
  assume h: "race_profile_frequencies rc = Inr fr \<and>
    2 < length (imd_fs_list (race_num_nodes rc) (fq_f fr)) \<and>
    check_output_utf8 rc (''java -jar '' @ jar @ '' -r '' @
       join_sp (imd_fs_list (race_num_nodes rc) (fq_f fr))) = Inl e"
  show "emit_imdtabler_rating rc jar w =
      Inr (w\<lparr>procs := procs w @ [''java -jar '' @ jar @ '' -r '' @
                 join_sp (imd_fs_list (race_num_nodes rc) (fq_f fr))],
             logged := logged w @ [(''emit_imdtabler_rating exception'', e)],
             wire := wire w @
               [\<lparr>m_topic = ''imdtabler_rating'', m_payload = JObj [(''imd_rating'', JNull)],
                 m_target = ToAll\<rparr>]\<rparr>)"
    by (rule rating_failure [OF h [THEN conjunct1] h [THEN conjunct2, THEN conjunct1]
          h [THEN conjunct2, THEN conjunct2]])
next
  assume h: "2 < length fs_list \<and>
    check_output_utf8 rc (''java -jar '' @ jar @ '' -t '' @ join_sp fs_list) = Inl e' \<and>
    (has_param ps ''nobroadcast'' \<longrightarrow> request_sid w = Some s)"
  show "emit_imdtabler_data rc jar fs_list ver ps w =
       Inr (w\<lparr>procs := procs w @ [''java -jar '' @ jar @ '' -t '' @ join_sp fs_list],
              logged := logged w @ [(''emit_imdtabler_data exception'', e')],
              wire := wire w @
                [\<lparr>m_topic = ''imdtabler_data'',
                  m_payload = JObj [(''freq_list'', JStr (join_sp fs_list)),
                                    (''table_data'', JNull),
                                    (''version_str'', jstr_opt ver)],
                  m_target = (if has_param ps ''nobroadcast'' then ToRoom s else ToAll)\<rparr>]\<rparr>)"
    by (rule data_failure [OF h [THEN conjunct1] h [THEN conjunct2, THEN conjunct1]
          h [THEN conjunct2, THEN conjunct2]])
qed

theorem imd_process_failure_null_witness:
  "emit_imdtabler_rating example_rc4 ''IMDTabler.jar'' example_world =
     Inr (example_world\<lparr>procs := [''java -jar IMDTabler.jar -r 5658 5695 5732 5769''],
            logged := [(''emit_imdtabler_rating exception'', CalledProcessError 1)],
            wire := [\<lparr>m_topic = ''imdtabler_rating'',
                      m_payload = JObj [(''imd_rating'', JNull)], m_target = ToAll\<rparr>]\<rparr>) \<and>
   emit_imdtabler_data example_rc4 ''IMDTabler.jar'' [''5658'', ''5695'', ''5732'', ''5769'']
       (Some ''1.2'') Map.empty example_world =
     Inr (example_world\<lparr>procs := [''java -jar IMDTabler.jar -t 5658 5695 5732 5769''],
            logged := [(''emit_imdtabler_data exception'', CalledProcessError 1)],
            wire := [\<lparr>m_topic = ''imdtabler_data'',
                      m_payload = JObj [(''freq_list'', JStr ''5658 5695 5732 5769''),
                                        (''table_data'', JNull),
                                        (''version_str'', JStr ''1.2'')],
                      m_target = ToAll\<rparr>]\<rparr>)"
proof -
  let ?fr = "\<lparr>fq_b = [Some ''R'', Some ''R'', Some ''R'', Some ''R''],
              fq_c = [Some 1, Some 2, Some 3, Some 4],
              fq_f = [5658, 5695, 5732, 5769]\<rparr>"
  let ?fs = "[''5658'', ''5695'', ''5732'', ''5769'']"
  have fr: "race_profile_frequencies example_rc4 = Inr ?fr"
    by (simp add: example_rc4_def)
  have fs: "imd_fs_list (race_num_nodes example_rc4) (fq_f ?fr) = ?fs"
    by (simp add: example_rc4_def imd_fs_list_def fromkeys_def str_int_def digit_char_def)
  have run: "check_output_utf8 example_rc4 c = Inl (CalledProcessError 1)" for c
    by (simp add: example_rc4_def example_rc_def)
  have a: "race_profile_frequencies example_rc4 = Inr ?fr \<and>
    2 < length (imd_fs_list (race_num_nodes example_rc4) (fq_f ?fr)) \<and>
    check_output_utf8 example_rc4 (''java -jar '' @ ''IMDTabler.jar'' @ '' -r '' @
       join_sp (imd_fs_list (race_num_nodes example_rc4) (fq_f ?fr))) = Inl (CalledProcessError 1)"
    using fr run by (simp only: fs) simp
  have b: "2 < length ?fs \<and>
    check_output_utf8 example_rc4 (''java -jar '' @ ''IMDTabler.jar'' @ '' -t '' @ join_sp ?fs) =
      Inl (CalledProcessError 1) \<and>
    (has_param Map.empty ''nobroadcast'' \<longrightarrow> request_sid example_world = Some ''none'')"
    using run by (simp add: has_param_def)
  note t = imd_process_failure_null [of example_rc4 ?fr "''IMDTabler.jar''" "CalledProcessError 1"
      example_world ?fs "CalledProcessError 1" Map.empty "''none''" "Some ''1.2''"]
  have fs': "imd_fs_list (race_num_nodes example_rc4) [5658, 5695, 5732, 5769] = ?fs"
    using fs by simp
  from t [THEN conjunct1, THEN mp, OF a] t [THEN conjunct2, THEN mp, OF b]
  show ?thesis
    by (simp add: fs' example_world_def has_param_def jstr_opt_def)
qed

section \<open>The pilot list and its order\<close>

lemma py_tuple_lt_strings:
  "py_tuple_lt (Some a1, Some a2) (Some b1, Some b2) = Inr ((a1, a2) < (b1, b2))"
  by (auto simp: less_prod_def)

text \<open>On keys that are pairs of strings, the failing sort is the stable sort of the pairs.\<close>

lemma py_insort_key_strings:
  assumes "\<forall>y \<in> set (x # ys). k y = (Some (fst (sk y)), Some (snd (sk y)))"
  shows "py_insort_key k x ys = Inr (insort_key sk x ys)"
  using assms
proof (induction ys)
  case Nil
  show ?case by simp
next
  case (Cons y ys)
  have kx: "k x = (Some (fst (sk x)), Some (snd (sk x)))"
   and ky: "k y = (Some (fst (sk y)), Some (snd (sk y)))"
    using Cons.prems by simp_all
  have lt: "py_tuple_lt (k y) (k x) = Inr (sk y < sk x)"
    by (simp only: kx ky py_tuple_lt_strings prod.collapse)
  have ih: "py_insort_key k x ys = Inr (insort_key sk x ys)"
    using Cons by simp
  show ?case
  proof (cases "sk y < sk x")
    case True
    then have "\<not> sk x \<le> sk y" by (simp add: not_le)
    with True show ?thesis by (simp add: lt ih)
  next
    case False
    then have "sk x \<le> sk y" by (simp add: not_less)
    with False show ?thesis by (simp add: lt)
  qed
qed

lemma py_sort_key_strings:
  assumes "\<forall>y \<in> set xs. k y = (Some (fst (sk y)), Some (snd (sk y)))"
  shows "py_sort_key k xs = Inr (sort_key sk xs)"
  using assms
proof (induction xs)
  case Nil
  show ?case by simp
next
  case (Cons x xs)
  have ih: "py_sort_key k xs = Inr (sort_key sk xs)"
    using Cons by simp
  have "\<forall>y \<in> set (x # sort_key sk xs). k y = (Some (fst (sk y)), Some (snd (sk y)))"
    using Cons.prems by simp
  then have "py_insort_key k x (sort_key sk xs) = Inr (insort_key sk x (sort_key sk xs))"
    by (rule py_insort_key_strings)
  with ih show ?case by simp
qed

text \<open>Sorting a list again after appending to it gives the sort of the whole.\<close>

lemma sort_key_absorb: "sort_key f (sort_key f xs @ ys) = sort_key f (xs @ ys)"
proof (rule properties_for_sort_key [symmetric])
  show "mset (sort_key f (sort_key f xs @ ys)) = mset (xs @ ys)"
    by simp
  show "sorted (map f (sort_key f (sort_key f xs @ ys)))"
    by simp
next
  fix k
  have "filter (\<lambda>x. f x = f k) (sort_key f (sort_key f xs @ ys)) =
        filter (\<lambda>x. f x = f k) (xs @ ys)"
    by (simp add: sort_key_stable)
  moreover have "(\<lambda>x. f k = f x) = (\<lambda>x. f x = f k)"
    by auto
  ultimately show "filter (\<lambda>x. f k = f x) (sort_key f (sort_key f xs @ ys)) =
                   filter (\<lambda>x. f k = f x) (xs @ ys)"
    by simp
qed

lemma pilot_sort_key_strings:
  "string_keys d \<Longrightarrow>
   pilot_sort_key m d = (Some (fst (pilot_key_pair m d)), Some (snd (pilot_key_pair m d)))"
  by (auto simp: string_keys_def pilot_sort_key_def pilot_key_pair_def str_entry_def)

lemma pilots_loop_sorted:
  assumes "list_all string_keys acc"
      and "list_all (\<lambda>p. string_keys (pilot_data rc p)) ps"
      and "sort_key (pilot_key_pair (rhdata_get_option rc ''pilotSort'')) acc = acc"
  shows "pilots_loop rc ps acc =
           Inr (sort_key (pilot_key_pair (rhdata_get_option rc ''pilotSort''))
                  (acc @ map (pilot_data rc) ps))"
  using assms
proof (induction ps arbitrary: acc)
  case Nil
  then show ?case by simp
next
  case (Cons p ps)
  let ?sk = "pilot_key_pair (rhdata_get_option rc ''pilotSort'')"
  let ?k = "pilot_sort_key (rhdata_get_option rc ''pilotSort'')"
  let ?acc' = "sort_key ?sk (acc @ [pilot_data rc p])"
  have "\<forall>y \<in> set (acc @ [pilot_data rc p]). ?k y = (Some (fst (?sk y)), Some (snd (?sk y)))"
    using Cons.prems(1,2) by (auto simp: list_all_iff pilot_sort_key_strings)
  then have step: "py_sort_key ?k (acc @ [pilot_data rc p]) = Inr ?acc'"
    by (rule py_sort_key_strings)
  have a: "list_all string_keys ?acc'"
    using Cons.prems(1,2) by (auto simp: list_all_iff)
  have b: "list_all (\<lambda>p. string_keys (pilot_data rc p)) ps"
    using Cons.prems(2) by simp
  have c: "sort_key ?sk ?acc' = ?acc'"
    by (simp add: sort_key_id_if_sorted)
  have "pilots_loop rc ps ?acc' = Inr (sort_key ?sk (?acc' @ map (pilot_data rc) ps))"
    using a b c by (rule Cons.IH)
  then show ?case
    by (simp add: step sort_key_absorb)
qed

lemma pilots_loop_result:
  assumes "list_all (\<lambda>p. string_keys (pilot_data rc p)) (rhdata_get_pilots rc)"
  shows "pilots_loop rc (rhdata_get_pilots rc) [] =
           Inr (sort_key (pilot_key_pair (rhdata_get_option rc ''pilotSort''))
                  (map (pilot_data rc) (rhdata_get_pilots rc)))"
  using pilots_loop_sorted [of "[]" rc "rhdata_get_pilots rc"] assms
  by simp

text \<open>
  The entries are strings whenever no stored pilot attribute named \<^verbatim>\<open>callsign\<close> or
  \<^verbatim>\<open>name\<close> holds \<^verbatim>\<open>None\<close>; in particular when no attribute has such a name.
\<close>

lemma map_of_dict_set: "map_of (dict_set d k v) = (map_of d)(k \<mapsto> v)"
  by (induction d) auto

lemma key_str_dict_set_other: "k \<noteq> k' \<Longrightarrow> key_str (dict_set d k v) k' = key_str d k'"
  by (auto simp: key_str_def dict_get_def map_of_dict_set)

lemma key_str_dict_set_string: "key_str (dict_set d k (JStr s)) k = Some s"
  by (simp add: key_str_def dict_get_def map_of_dict_set)

lemma string_keys_dict_set:
  assumes "string_keys d"
      and "k = ''callsign'' \<or> k = ''name'' \<longrightarrow> v \<noteq> None"
  shows "string_keys (dict_set d k (jstr_opt v))"
proof (cases v)
  case None
  with assms show ?thesis
    by (simp add: string_keys_def key_str_dict_set_other)
next
  case (Some s)
  with assms(1) show ?thesis
    by (cases "k = ''callsign''"; cases "k = ''name''")
       (simp_all add: string_keys_def jstr_opt_def key_str_dict_set_other
          key_str_dict_set_string)
qed

lemma string_keys_attributes_loop:
  assumes "string_keys d"
      and "list_all (\<lambda>(n, v). n = ''callsign'' \<or> n = ''name'' \<longrightarrow> v \<noteq> None) attrs"
  shows "string_keys (pilot_attributes_loop attrs d)"
  using assms
proof (induction attrs arbitrary: d)
  case Nil
  then show ?case by simp
next
  case (Cons a attrs)
  obtain n v where a: "a = (n, v)"
    by (cases a)
  have "string_keys (dict_set d n (jstr_opt v))"
    using Cons.prems a by (intro string_keys_dict_set) simp_all
  moreover have "list_all (\<lambda>(n, v). n = ''callsign'' \<or> n = ''name'' \<longrightarrow> v \<noteq> None) attrs"
    using Cons.prems(2) by simp
  ultimately show ?case
    using Cons.IH a by simp
qed

lemma string_keys_pilot_data:
  assumes "list_all (\<lambda>(n, v). n = ''callsign'' \<or> n = ''name'' \<longrightarrow> v \<noteq> None)
             (rhdata_get_pilot_attributes rc p)"
  shows "string_keys (pilot_data rc p)"
proof -
  let ?d = "[(''pilot_id'', JInt (p_id p)), (''callsign'', JStr (p_callsign p)),
             (''team'', JStr (p_team p)), (''phonetic'', JStr (p_phonetic p)),
             (''name'', JStr (p_name p)), (''active'', p_active p),
             (''team_options'',
              JStr (team_options_loop (p_team p) (rhdata_TEAM_NAMES_LIST rc) [])),
             (''locked'', JBool (rhdata_savedPilotRaces_has_pilot rc (p_id p)))]"
  have "string_keys ?d"
    by (simp add: string_keys_def key_str_def dict_get_def)
  then have a: "string_keys (pilot_attributes_loop (rhdata_get_pilot_attributes rc p) ?d)"
    using assms by (rule string_keys_attributes_loop)
  then have "string_keys
      (dict_set (pilot_attributes_loop (rhdata_get_pilot_attributes rc p) ?d) ''color'' (p_color p))"
    by (simp add: string_keys_def key_str_dict_set_other)
  with a show ?thesis
    by (simp add: pilot_data_def Let_def)
qed

lemma emit_heat_data_no_params:
  "emit_heat_data rc Map.empty w = Inr (socket_emit ''heat_data'' (heat_data_payload rc) w)"
  by (simp add: emit_heat_data_def send_noself_def has_param_def)

lemma send_noself_target:
  assumes "has_param ps ''nobroadcast'' \<or> has_param ps ''noself'' \<longrightarrow> request_sid w = Some s"
  shows "send_noself ps t p w =
           Inr (w\<lparr>wire := wire w @
                  [\<lparr>m_topic = t, m_payload = p,
                    m_target = (if has_param ps ''nobroadcast'' then ToRoom s
                                else if has_param ps ''noself'' then ToAllExcept s
                                else ToAll)\<rparr>]\<rparr>)"
  using assms
  by (simp add: send_noself_def flask_emit_def flask_emit_others_def socket_emit_def)

lemma emit_pilot_data_sends:
  assumes "list_all (\<lambda>p. string_keys (pilot_data rc p)) (rhdata_get_pilots rc)"
      and "has_param ps ''nobroadcast'' \<or> has_param ps ''noself'' \<longrightarrow> request_sid w = Some s"
  shows "emit_pilot_data rc ui ps w =
           Inr (w\<lparr>wire := wire w @
                  [\<lparr>m_topic = ''pilot_data'',
                    m_payload = pilot_data_payload rc ui
                      (sort_key (pilot_key_pair (rhdata_get_option rc ''pilotSort''))
                         (map (pilot_data rc) (rhdata_get_pilots rc))),
                    m_target = (if has_param ps ''nobroadcast'' then ToRoom s
                                else if has_param ps ''noself'' then ToAllExcept s
                                else ToAll)\<rparr>,
                   \<lparr>m_topic = ''heat_data'', m_payload = heat_data_payload rc,
                    m_target = ToAll\<rparr>]\<rparr>)"
  by (simp add: emit_pilot_data_def pilots_loop_result [OF assms(1)]
        send_noself_target [OF assms(2)] emit_heat_data_no_params socket_emit_def)

lemma emit_pilot_data_last:
  assumes "emit_pilot_data rc ui ps w = Inr w'"
  shows "wire w' \<noteq> [] \<and>
         last (wire w') =
           \<lparr>m_topic = ''heat_data'', m_payload = heat_data_payload rc, m_target = ToAll\<rparr>"
  using assms
  by (auto simp: emit_pilot_data_def emit_heat_data_no_params socket_emit_def
        split: sum.splits)

text \<open>
  C7. When the \<^verbatim>\<open>callsign\<close> and \<^verbatim>\<open>name\<close> entries of every pilot dictionary are
  strings, the list under \<^verbatim>\<open>pilots\<close> in the payload sent on \<^verbatim>\<open>pilot_data\<close> is the
  pilots' dictionaries in the stable ascending order of the pair (callsign, name) if the
  option \<^verbatim>\<open>pilotSort\<close> is \<^verbatim>\<open>callsign\<close>, and of (name, callsign) otherwise: a
  permutation of the dictionaries, sorted by the pair, equal pairs in the order of the
  data store; and sorting it again gives the same list.
\<close>

theorem pilot_list_sorted:
  assumes "list_all (\<lambda>p. string_keys (pilot_data rc p)) (rhdata_get_pilots rc)"
  shows "let sk = pilot_key_pair (rhdata_get_option rc ''pilotSort'');
             ps = sort_key sk (map (pilot_data rc) (rhdata_get_pilots rc))
         in pilots_loop rc (rhdata_get_pilots rc) [] = Inr ps \<and>
            emit_pilot_data rc ui Map.empty w =
              Inr (w\<lparr>wire := wire w @
                     [\<lparr>m_topic = ''pilot_data'',
                       m_payload =
                         JObj [(''pilots'', JList (map JObj ps)),
                               (''pilotSort'', jstr_opt (rhdata_get_option rc ''pilotSort'')),
                               (''attributes'',
                                JList (map attribute_json (pilot_attributes ui)))],
                       m_target = ToAll\<rparr>,
                      \<lparr>m_topic = ''heat_data'', m_payload = heat_data_payload rc,
                       m_target = ToAll\<rparr>]\<rparr>) \<and>
            payload_pilots (pilot_data_payload rc ui ps) = map JObj ps \<and>
            sk = (\<lambda>x. if rhdata_get_option rc ''pilotSort'' = Some ''callsign''
                       then (str_entry x ''callsign'', str_entry x ''name'')
                       else (str_entry x ''name'', str_entry x ''callsign'')) \<and>
            mset ps = mset (map (pilot_data rc) (rhdata_get_pilots rc)) \<and>
            sorted (map sk ps) \<and>
            (\<forall>c. filter (\<lambda>x. sk x = c) ps =
                  filter (\<lambda>x. sk x = c) (map (pilot_data rc) (rhdata_get_pilots rc))) \<and>
            py_sort_key (pilot_sort_key (rhdata_get_option rc ''pilotSort'')) ps = Inr ps"
proof -
  let ?sk = "pilot_key_pair (rhdata_get_option rc ''pilotSort'')"
  let ?k = "pilot_sort_key (rhdata_get_option rc ''pilotSort'')"
  let ?ds = "map (pilot_data rc) (rhdata_get_pilots rc)"
  let ?ps = "sort_key ?sk ?ds"
  have loop: "pilots_loop rc (rhdata_get_pilots rc) [] = Inr ?ps"
    using assms by (rule pilots_loop_result)
  have "has_param Map.empty ''nobroadcast'' \<or> has_param Map.empty ''noself'' \<longrightarrow>
        request_sid w = Some []"
    by (simp add: has_param_def)
  from emit_pilot_data_sends [OF assms this]
  have sent: "emit_pilot_data rc ui Map.empty w =
      Inr (w\<lparr>wire := wire w @
             [\<lparr>m_topic = ''pilot_data'',
               m_payload =
                 JObj [(''pilots'', JList (map JObj ?ps)),
                       (''pilotSort'', jstr_opt (rhdata_get_option rc ''pilotSort'')),
                       (''attributes'', JList (map attribute_json (pilot_attributes ui)))],
               m_target = ToAll\<rparr>,
              \<lparr>m_topic = ''heat_data'', m_payload = heat_data_payload rc,
               m_target = ToAll\<rparr>]\<rparr>)"
    by (simp add: has_param_def pilot_data_payload_def)
  have read: "payload_pilots (pilot_data_payload rc ui ?ps) = map JObj ?ps"
    by (simp add: payload_pilots_def pilot_data_payload_def dict_get_def)
  have key: "?sk = (\<lambda>x. if rhdata_get_option rc ''pilotSort'' = Some ''callsign''
                       then (str_entry x ''callsign'', str_entry x ''name'')
                       else (str_entry x ''name'', str_entry x ''callsign''))"
    by (rule ext) (simp add: pilot_key_pair_def)
  have perm: "mset ?ps = mset ?ds"
    by simp
  have srt: "sorted (map ?sk ?ps)"
    by simp
  have stable: "\<forall>c. filter (\<lambda>x. ?sk x = c) ?ps = filter (\<lambda>x. ?sk x = c) ?ds"
    by (simp add: sort_key_stable)
  have "\<forall>y \<in> set ?ps. ?k y = (Some (fst (?sk y)), Some (snd (?sk y)))"
    using assms by (auto simp: list_all_iff pilot_sort_key_strings)
  then have "py_sort_key ?k ?ps = Inr (sort_key ?sk ?ps)"
    by (rule py_sort_key_strings)
  then have again: "py_sort_key ?k ?ps = Inr ?ps"
    by (simp add: sort_key_id_if_sorted)
  show ?thesis
    unfolding Let_def
    using loop sent read key perm srt stable again
    by (intro conjI)
qed

theorem pilot_list_sorted_witness:
  "map (\<lambda>p. (p_callsign p, p_name p)) (rhdata_get_pilots example_rc) =
     [(''Zed'', ''Ann''), (''Ace'', ''Bob''), (''Ace'', ''Al'')] \<and>
   pilots_loop example_rc (rhdata_get_pilots example_rc) [] =
     Inr [pilot_data example_rc (example_pilot 3 ''Ace'' ''Al''),
          pilot_data example_rc (example_pilot 2 ''Ace'' ''Bob''),
          pilot_data example_rc (example_pilot 1 ''Zed'' ''Ann'')] \<and>
   emit_pilot_data example_rc rhui_init Map.empty example_world =
     Inr (example_world\<lparr>wire :=
            [\<lparr>m_topic = ''pilot_data'',
              m_payload =
                JObj [(''pilots'',
                       JList [JObj (pilot_data example_rc (example_pilot 3 ''Ace'' ''Al'')),
                              JObj (pilot_data example_rc (example_pilot 2 ''Ace'' ''Bob'')),
                              JObj (pilot_data example_rc (example_pilot 1 ''Zed'' ''Ann''))]),
                      (''pilotSort'', JStr ''callsign''),
                      (''attributes'', JList [])],
              m_target = ToAll\<rparr>,
             \<lparr>m_topic = ''heat_data'', m_payload = heat_data_payload example_rc,
              m_target = ToAll\<rparr>]\<rparr>) \<and>
   map (\<lambda>d. (dict_get d ''callsign'', dict_get d ''name''))
     [pilot_data example_rc (example_pilot 3 ''Ace'' ''Al''),
      pilot_data example_rc (example_pilot 2 ''Ace'' ''Bob''),
      pilot_data example_rc (example_pilot 1 ''Zed'' ''Ann'')] =
     [(Some (JStr ''Ace''), Some (JStr ''Al'')), (Some (JStr ''Ace''), Some (JStr ''Bob'')),
      (Some (JStr ''Zed''), Some (JStr ''Ann''))]"
proof -
  have "string_keys (pilot_data example_rc p)" for p
    by (rule string_keys_pilot_data) (simp add: example_rc_def)
  then have h: "list_all (\<lambda>p. string_keys (pilot_data example_rc p)) (rhdata_get_pilots example_rc)"
    by (simp add: list_all_iff)
  have opt: "rhdata_get_option example_rc ''pilotSort'' = Some ''callsign''"
    by (simp add: example_rc_def)
  have ps: "rhdata_get_pilots example_rc =
      [example_pilot 1 ''Zed'' ''Ann'', example_pilot 2 ''Ace'' ''Bob'',
       example_pilot 3 ''Ace'' ''Al'']"
    by (simp add: example_rc_def example_pilots_def)
  have kp: "pilot_key_pair (Some ''callsign'') (pilot_data example_rc (example_pilot i c n)) = (c, n)"
    for i c n
    by (simp add: pilot_key_pair_def str_entry_def key_str_def dict_get_def pilot_data_def
          example_rc_def example_pilot_def Let_def)
  have fields: "p_callsign (example_pilot i c n) = c" "p_name (example_pilot i c n) = n" for i c n
    by (simp_all add: example_pilot_def)
  have srt: "sort_key (pilot_key_pair (Some ''callsign''))
               (map (pilot_data example_rc) (rhdata_get_pilots example_rc)) =
             [pilot_data example_rc (example_pilot 3 ''Ace'' ''Al''),
              pilot_data example_rc (example_pilot 2 ''Ace'' ''Bob''),
              pilot_data example_rc (example_pilot 1 ''Zed'' ''Ann'')]"
    by (simp add: ps kp)
  note t = pilot_list_sorted [OF h, of rhui_init example_world, unfolded Let_def opt srt]
  have a: "pilots_loop example_rc (rhdata_get_pilots example_rc) [] =
     Inr [pilot_data example_rc (example_pilot 3 ''Ace'' ''Al''),
          pilot_data example_rc (example_pilot 2 ''Ace'' ''Bob''),
          pilot_data example_rc (example_pilot 1 ''Zed'' ''Ann'')]"
    by (rule t [THEN conjunct1])
  have b: "emit_pilot_data example_rc rhui_init Map.empty example_world =
     Inr (example_world\<lparr>wire :=
            [\<lparr>m_topic = ''pilot_data'',
              m_payload =
                JObj [(''pilots'',
                       JList [JObj (pilot_data example_rc (example_pilot 3 ''Ace'' ''Al'')),
                              JObj (pilot_data example_rc (example_pilot 2 ''Ace'' ''Bob'')),
                              JObj (pilot_data example_rc (example_pilot 1 ''Zed'' ''Ann''))]),
                      (''pilotSort'', JStr ''callsign''),
                      (''attributes'', JList [])],
              m_target = ToAll\<rparr>,
             \<lparr>m_topic = ''heat_data'', m_payload = heat_data_payload example_rc,
              m_target = ToAll\<rparr>]\<rparr>)"
    using t [THEN conjunct2, THEN conjunct1]
    by (simp add: jstr_opt_def rhui_init_def example_world_def)
  have c: "map (\<lambda>d. (dict_get d ''callsign'', dict_get d ''name''))
     [pilot_data example_rc (example_pilot 3 ''Ace'' ''Al''),
      pilot_data example_rc (example_pilot 2 ''Ace'' ''Bob''),
      pilot_data example_rc (example_pilot 1 ''Zed'' ''Ann'')] =
     [(Some (JStr ''Ace''), Some (JStr ''Al'')), (Some (JStr ''Ace''), Some (JStr ''Bob'')),
      (Some (JStr ''Zed''), Some (JStr ''Ann''))]"
    by (simp add: dict_get_def pilot_data_def example_rc_def example_pilot_def Let_def)
  have d: "map (\<lambda>p. (p_callsign p, p_name p)) (rhdata_get_pilots example_rc) =
     [(''Zed'', ''Ann''), (''Ace'', ''Bob''), (''Ace'', ''Al'')]"
    by (simp add: ps fields)
  from d a b c show ?thesis
    by (intro conjI)
qed

text \<open>
  C10. Whatever addressing the parameters ask for, a call of \<open>emit_pilot_data\<close> that
  gets through its own send (the dictionaries sort, and a request is active if
  \<^verbatim>\<open>nobroadcast\<close> or \<^verbatim>\<open>noself\<close> is given) sends the pilot data to the target the
  parameters select and then the heat data to all sessions, as \<open>emit_heat_data\<close>
  without parameters does. And of any call that returns, the last message sent is that
  heat data, addressed to all.
\<close>

theorem emit_pilot_data_then_heat_data:
  assumes "list_all (\<lambda>p. string_keys (pilot_data rc p)) (rhdata_get_pilots rc)"
      and "has_param ps ''nobroadcast'' \<or> has_param ps ''noself'' \<longrightarrow> request_sid w = Some s"
  shows "emit_pilot_data rc ui ps w =
           Inr (w\<lparr>wire := wire w @
                  [\<lparr>m_topic = ''pilot_data'',
                    m_payload = pilot_data_payload rc ui
                      (sort_key (pilot_key_pair (rhdata_get_option rc ''pilotSort''))
                         (map (pilot_data rc) (rhdata_get_pilots rc))),
                    m_target = (if has_param ps ''nobroadcast'' then ToRoom s
                                else if has_param ps ''noself'' then ToAllExcept s
                                else ToAll)\<rparr>,
                   \<lparr>m_topic = ''heat_data'', m_payload = heat_data_payload rc,
                    m_target = ToAll\<rparr>]\<rparr>) \<and>
         recipients sessions ToAll = sessions \<and>
         (\<forall>w'. emit_pilot_data rc ui ps' w0 = Inr w' \<longrightarrow>
               wire w' \<noteq> [] \<and>
               last (wire w') =
                 \<lparr>m_topic = ''heat_data'', m_payload = heat_data_payload rc,
                   m_target = ToAll\<rparr>)"
proof (intro conjI allI impI)
  show "emit_pilot_data rc ui ps w =
           Inr (w\<lparr>wire := wire w @
                  [\<lparr>m_topic = ''pilot_data'',
                    m_payload = pilot_data_payload rc ui
                      (sort_key (pilot_key_pair (rhdata_get_option rc ''pilotSort''))
                         (map (pilot_data rc) (rhdata_get_pilots rc))),
                    m_target = (if has_param ps ''nobroadcast'' then ToRoom s
                                else if has_param ps ''noself'' then ToAllExcept s
                                else ToAll)\<rparr>,
                   \<lparr>m_topic = ''heat_data'', m_payload = heat_data_payload rc,
                    m_target = ToAll\<rparr>]\<rparr>)"
    using assms by (rule emit_pilot_data_sends)
  show "recipients sessions ToAll = sessions"
    by simp
next
  fix w'
  assume r: "emit_pilot_data rc ui ps' w0 = Inr w'"
  from emit_pilot_data_last [OF r]
  show "wire w' \<noteq> []"
   and "last (wire w') =
          \<lparr>m_topic = ''heat_data'', m_payload = heat_data_payload rc, m_target = ToAll\<rparr>"
    by simp_all
qed

theorem emit_pilot_data_then_heat_data_witness:
  "map (\<lambda>m. (m_topic m, m_target m))
     (case emit_pilot_data example_rc rhui_init [''nobroadcast'' \<mapsto> JBool True]
             (example_world\<lparr>request_sid := Some ''s1''\<rparr>) of
        Inl e \<Rightarrow> []
      | Inr w' \<Rightarrow> wire w') =
   [(''pilot_data'', ToRoom ''s1''), (''heat_data'', ToAll)]"
proof -
  have "string_keys (pilot_data example_rc p)" for p
    by (rule string_keys_pilot_data) (simp add: example_rc_def)
  then have h: "list_all (\<lambda>p. string_keys (pilot_data example_rc p)) (rhdata_get_pilots example_rc)"
    by (simp add: list_all_iff)
  have r: "has_param [''nobroadcast'' \<mapsto> JBool True] ''nobroadcast'' \<or>
           has_param [''nobroadcast'' \<mapsto> JBool True] ''noself'' \<longrightarrow>
           request_sid (example_world\<lparr>request_sid := Some ''s1''\<rparr>) = Some ''s1''"
    by simp
  have p: "has_param [''nobroadcast'' \<mapsto> JBool True] ''nobroadcast''"
    by (simp add: has_param_def)
  from emit_pilot_data_then_heat_data [OF h r, THEN conjunct1]
  show ?thesis
    by (simp add: p example_world_def)
qed

end
